theory Spec2Isabelle
  imports Main "HOL-Library.Word" "HOL-Library.AList"
begin

section \<open>Data model\<close>

text \<open>
  The two modules embedded here are \<^verbatim>\<open>anchorpy/program/core.py\<close> and
  \<^verbatim>\<open>anchorpy/program/namespace/account.py\<close>. The libraries they call (the transport, the
  coders, \<^verbatim>\<open>base64\<close>, \<^verbatim>\<open>base58\<close>, \<^verbatim>\<open>zlib\<close>, \<^verbatim>\<open>json\<close>, \<^verbatim>\<open>solana\<close>) are collaborators: each
  is a parameter of the model, so every theorem holds for whatever the collaborators
  compute. The schema classes and the handle builders of the other namespace modules are
  given the shape the spec describes, each under a note that says so.
\<close>

type_synonym byte = "8 word"
type_synonym bytes = "byte list"

text \<open>A \<^verbatim>\<open>solana.publickey.PublicKey\<close>, by its raw bytes.\<close>

type_synonym PublicKey = bytes

text \<open>\<^verbatim>\<open>AddressType = Union[PublicKey, str]\<close>.\<close>

datatype Address = AddrStr string | AddrKey PublicKey

text \<open>
  The exception classes the two modules define (\<^verbatim>\<open>IdlNotFoundError\<close> in core.py,
  \<^verbatim>\<open>AccountDoesNotExistError\<close> and \<^verbatim>\<open>AccountInvalidDiscriminator\<close> in account.py), Python's
  \<^verbatim>\<open>IndexError\<close> for a subscript out of range, and \<open>Foreign\<close> for an exception raised inside
  a collaborator, carrying that exception as text. No collaborator imports the two modules,
  so none of them raises one of the three classes defined here.
\<close>

datatype error =
    AccountDoesNotExistError
  | AccountInvalidDiscriminator
  | IdlNotFoundError
  | IndexError
  | Foreign string

text \<open>\<^verbatim>\<open>solana.rpc.types.MemcmpOpts(offset, bytes)\<close>; \<^verbatim>\<open>bytes\<close> is a base-58 string.\<close>

record MemcmpOpts =
  memcmp_offset :: int
  memcmp_bytes :: string

text \<open>
  The shape of the transport's answers, as the code reads them:
  \<^verbatim>\<open>account_info["result"]["value"]\<close> is \<^verbatim>\<open>None\<close> or a mapping with a \<^verbatim>\<open>"data"\<close> list, and each
  element of \<^verbatim>\<open>resp["result"]\<close> has \<^verbatim>\<open>"pubkey"\<close> and \<^verbatim>\<open>["account"]["data"]\<close>.
\<close>

record AccountInfoValue =
  aiv_data :: "string list"

record KeyedAccount =
  ka_pubkey :: string
  ka_account_data :: "string list"

text \<open>
  The transport (\<^verbatim>\<open>provider.connection\<close>). A collaborator that raises returns \<open>Inl\<close> with
  the exception. \<open>get_account_info\<close> takes the address and the \<^verbatim>\<open>encoding\<close> keyword (absent in
  \<^verbatim>\<open>fetch_idl\<close>); \<open>get_program_accounts\<close> takes the program address, \<^verbatim>\<open>encoding\<close>,
  \<^verbatim>\<open>commitment\<close>, \<^verbatim>\<open>data_size\<close> and \<^verbatim>\<open>memcmp_opts\<close>;
  \<open>get_minimum_balance_for_rent_exemption\<close> returns the \<^verbatim>\<open>"result"\<close> of its answer.
\<close>

record Connection =
  get_account_info :: "Address \<Rightarrow> string option \<Rightarrow> string + AccountInfoValue option"
  get_program_accounts ::
    "PublicKey \<Rightarrow> string \<Rightarrow> string \<Rightarrow> int option \<Rightarrow> MemcmpOpts list \<Rightarrow> string + KeyedAccount list"
  get_minimum_balance_for_rent_exemption :: "int \<Rightarrow> string + int"
  conn_commitment :: string

record Wallet =
  wallet_public_key :: PublicKey

record Provider =
  connection :: Connection
  wallet :: Wallet

record Keypair =
  keypair_public_key :: PublicKey

text \<open>
  What the code asks of its collaborators, in the order it asks: the calls to the transport,
  to the account coder's \<^verbatim>\<open>decode\<close> and to \<^verbatim>\<open>zlib\<close>, each with the arguments it received.
\<close>

datatype event =
    GetAccountInfo Address "string option"
  | GetProgramAccounts PublicKey string string "int option" "MemcmpOpts list"
  | GetMinimumBalanceForRentExemption int
  | AccountsDecode bytes
  | ZlibDecompressobj int bytes

text \<open>
  An operation that talks to collaborators yields the calls it made and then either the
  exception it raised or its return value.
\<close>

type_synonym 'a io = "event list \<times> (error + 'a)"

definition ret :: "'a \<Rightarrow> 'a io" where
  "ret x = ([], Inr x)"

definition raise :: "error \<Rightarrow> 'a io" where
  "raise e = ([], Inl e)"

definition foreign :: "string + 'a \<Rightarrow> error + 'a" where
  "foreign r = (case r of Inl x \<Rightarrow> Inl (Foreign x) | Inr v \<Rightarrow> Inr v)"

text \<open>A logged call to a collaborator, and a call that is not logged.\<close>

definition call :: "event \<Rightarrow> string + 'a \<Rightarrow> 'a io" where
  "call ev r = ([ev], foreign r)"

definition lib :: "string + 'a \<Rightarrow> 'a io" where
  "lib r = ([], foreign r)"

definition bind :: "'a io \<Rightarrow> ('a \<Rightarrow> 'b io) \<Rightarrow> 'b io" where
  "bind m f =
     (case m of
        (t, Inl e) \<Rightarrow> (t, Inl e)
      | (t, Inr x) \<Rightarrow> (case f x of (t', r) \<Rightarrow> (t @ t', r)))"

text \<open>Sequencing for code that raises but calls no logged collaborator.\<close>

definition bindE :: "error + 'a \<Rightarrow> ('a \<Rightarrow> error + 'b) \<Rightarrow> error + 'b" where
  "bindE m f = (case m of Inl e \<Rightarrow> Inl e | Inr x \<Rightarrow> f x)"

text \<open>Python's \<^verbatim>\<open>xs[0]\<close>.\<close>

definition subscript0 :: "'a list \<Rightarrow> error + 'a" where
  "subscript0 xs = (case xs of [] \<Rightarrow> Inl IndexError | x # _ \<Rightarrow> Inr x)"

subsection \<open>The schema\<close>

text \<open>
  Modelled from the spec: the schema classes of \<^verbatim>\<open>anchorpy.idl\<close> are not among the sources.
  The spec's data model gives an instruction definition a name, typed arguments and account
  roles, an account type definition a name and typed fields, and the error table a code, a
  name and an optional message; the code reads \<^verbatim>\<open>name\<close>, \<^verbatim>\<open>code\<close>, \<^verbatim>\<open>msg\<close>, \<^verbatim>\<open>instructions\<close>,
  \<^verbatim>\<open>accounts\<close> and \<^verbatim>\<open>errors\<close>.
\<close>

record IdlInstruction =
  ix_name :: string
  ix_args :: "(string \<times> string) list"
  ix_accounts :: "string list"

record IdlTypeDef =
  td_name :: string
  td_fields :: "(string \<times> string) list"

record IdlErrorCode =
  err_code :: int
  err_name :: string
  err_msg :: "string option"

record Idl =
  Idl_instructions :: "IdlInstruction list"
  Idl_accounts :: "IdlTypeDef list"
  Idl_types :: "IdlTypeDef list"
  Idl_errors :: "IdlErrorCode list"

subsection \<open>Coder and library collaborators\<close>

text \<open>
  \<^verbatim>\<open>anchorpy.coder.coder.Coder\<close>: the code uses \<^verbatim>\<open>coder.instruction.build\<close> (only passed on,
  of some type \<open>'b\<close>) and \<^verbatim>\<open>coder.accounts.decode\<close>, which returns a container of type \<open>'c\<close>.
\<close>

record ('b, 'c) Coder =
  instruction_build :: 'b
  accounts_decode :: "bytes \<Rightarrow> string + 'c"

text \<open>\<^verbatim>\<open>solana.system_program.CreateAccountParams\<close> and \<^verbatim>\<open>solana.transaction.TransactionInstruction\<close>.\<close>

record CreateAccountParams =
  cap_from_pubkey :: PublicKey
  cap_new_account_pubkey :: PublicKey
  cap_space :: int
  cap_lamports :: int
  cap_program_id :: PublicKey

record TransactionInstruction =
  ti_keys :: "(PublicKey \<times> bool \<times> bool) list"
  ti_program_id :: PublicKey
  ti_data :: bytes

text \<open>JSON values as \<^verbatim>\<open>json.loads\<close> returns them (numbers as integers).\<close>

datatype json =
    JNull
  | JBool bool
  | JInt int
  | JStr string
  | JList "json list"
  | JDict "(string \<times> json) list"

text \<open>The container \<^verbatim>\<open>decode_idl_account\<close> returns; the code reads its \<^verbatim>\<open>"data"\<close>.\<close>

record IdlProgramAccount =
  idl_account_data :: bytes

text \<open>
  The functions the two modules import. \<open>zlib_decompressobj wbits data\<close> stands for
  \<^verbatim>\<open>d = zlib.decompressobj(wbits); d.decompress(data) + d.flush()\<close>; \<open>utf8_decode\<close> for
  \<^verbatim>\<open>bytes.decode()\<close>; \<open>new_PublicKey\<close> for the constructor \<^verbatim>\<open>PublicKey(str)\<close>; \<open>new_Coder\<close> for
  \<^verbatim>\<open>Coder(idl)\<close>; \<open>b58encode_ascii\<close> for \<^verbatim>\<open>b58encode(v).decode("ascii")\<close>. Like the transport,
  a function that can raise returns \<open>Inl\<close> with the exception; \<open>create_account\<close> is
  one of them, since \<^verbatim>\<open>solana.system_program.create_account\<close> packs space and lamports as
  unsigned 64-bit integers and raises when one does not fit.
\<close>

record ('b, 'c, 't) World =
  account_discriminator :: "string \<Rightarrow> bytes"
  account_size :: "Idl \<Rightarrow> IdlTypeDef \<Rightarrow> string + int"
  b64decode :: "string \<Rightarrow> string + bytes"
  b58encode_ascii :: "bytes \<Rightarrow> string"
  new_PublicKey :: "string \<Rightarrow> string + PublicKey"
  create_account :: "CreateAccountParams \<Rightarrow> string + TransactionInstruction"
  translate_address :: "Address \<Rightarrow> string + PublicKey"
  idl_address :: "PublicKey \<Rightarrow> string + PublicKey"
  decode_idl_account :: "bytes \<Rightarrow> string + IdlProgramAccount"
  zlib_decompressobj :: "int \<Rightarrow> bytes \<Rightarrow> string + bytes"
  utf8_decode :: "bytes \<Rightarrow> string + string"
  json_loads :: "string \<Rightarrow> string + json"
  Idl_from_json :: "json \<Rightarrow> string + Idl"
  Provider_local :: "string + Provider"
  new_Coder :: "Idl \<Rightarrow> string + ('b, 'c) Coder"
  build_types :: "Idl \<Rightarrow> string + 't"

text \<open>
  Modelled from the spec: the constant \<^verbatim>\<open>ACCOUNT_DISCRIMINATOR_SIZE\<close> of
  \<^verbatim>\<open>anchorpy.coder.accounts\<close> is not among the sources; the spec fixes the discriminator at
  8 bytes.
\<close>

definition ACCOUNT_DISCRIMINATOR_SIZE :: nat where
  "ACCOUNT_DISCRIMINATOR_SIZE = 8"

section \<open>account.py\<close>

subsection \<open>AccountClient\<close>

record ('b, 'c) AccountClient =
  ac_idl_account :: IdlTypeDef
  ac_program_id :: PublicKey
  ac_provider :: Provider
  ac_coder :: "('b, 'c) Coder"
  ac_size :: int

text \<open>\<^verbatim>\<open>AccountClient.__init__\<close> (account.py 64-85).\<close>

definition AccountClient_init ::
  "('b, 'c, 't) World \<Rightarrow> Idl \<Rightarrow> IdlTypeDef \<Rightarrow> ('b, 'c) Coder \<Rightarrow> PublicKey \<Rightarrow> Provider
     \<Rightarrow> error + ('b, 'c) AccountClient" where
  "AccountClient_init W idl idl_account coder program_id provider =
     bindE (foreign (account_size W idl idl_account)) (\<lambda>n.
       Inr \<lparr> ac_idl_account = idl_account,
             ac_program_id = program_id,
             ac_provider = provider,
             ac_coder = coder,
             ac_size = int ACCOUNT_DISCRIMINATOR_SIZE + n \<rparr>)"

text \<open>
  \<^verbatim>\<open>AccountClient.fetch\<close> (account.py 87-108). \<^verbatim>\<open>not account_info["result"]["value"]\<close> holds
  of \<^verbatim>\<open>None\<close>; a value is a mapping with its \<^verbatim>\<open>"data"\<close> key, which is truthy.
\<close>

definition fetch :: "('b, 'c, 't) World \<Rightarrow> ('b, 'c) AccountClient \<Rightarrow> Address \<Rightarrow> 'c io" where
  "fetch W self address =
     bind (call (GetAccountInfo address (Some ''base64''))
             (get_account_info (connection (ac_provider self)) address (Some ''base64'')))
       (\<lambda>account_info_value.
     case account_info_value of
       None \<Rightarrow> raise AccountDoesNotExistError
     | Some v \<Rightarrow>
         bind ([], subscript0 (aiv_data v)) (\<lambda>data0.
         bind (lib (b64decode W data0)) (\<lambda>data.
         let discriminator = account_discriminator W (td_name (ac_idl_account self)) in
         if discriminator \<noteq> take ACCOUNT_DISCRIMINATOR_SIZE data
         then raise AccountInvalidDiscriminator
         else call (AccountsDecode data) (accounts_decode (ac_coder self) data))))"

text \<open>
  \<^verbatim>\<open>AccountClient.create_instruction\<close> (account.py 110-138). \<^verbatim>\<open>size_override if size_override\<close>
  tests an integer for truth: every integer but 0 is true.
\<close>

definition create_instruction ::
  "('b, 'c, 't) World \<Rightarrow> ('b, 'c) AccountClient \<Rightarrow> Keypair \<Rightarrow> int \<Rightarrow> TransactionInstruction io" where
  "create_instruction W self signer size_override =
     (let space = (if size_override \<noteq> 0 then size_override else ac_size self) in
      bind (call (GetMinimumBalanceForRentExemption space)
              (get_minimum_balance_for_rent_exemption (connection (ac_provider self)) space))
        (\<lambda>mbre_result.
      lib (create_account W
             \<lparr> cap_from_pubkey = wallet_public_key (wallet (ac_provider self)),
               cap_new_account_pubkey = keypair_public_key signer,
               cap_space = space,
               cap_lamports = mbre_result,
               cap_program_id = ac_program_id self \<rparr>)))"

text \<open>The dataclass \<^verbatim>\<open>ProgramAccount\<close> (account.py 53-58).\<close>

record 'c ProgramAccount =
  pa_public_key :: PublicKey
  pa_account :: 'c

text \<open>
  The body of the loop of \<^verbatim>\<open>AccountClient.all\<close> (account.py 173-180), for one record \<open>r\<close> of
  the answer: the value it appends to \<^verbatim>\<open>all_accounts\<close>.
\<close>

definition all_record ::
  "('b, 'c, 't) World \<Rightarrow> ('b, 'c) AccountClient \<Rightarrow> KeyedAccount \<Rightarrow> 'c ProgramAccount io" where
  "all_record W self r =
     bind ([], subscript0 (ka_account_data r)) (\<lambda>account_data0.
     bind (lib (b64decode W account_data0)) (\<lambda>account_data.
     bind (lib (new_PublicKey W (ka_pubkey r))) (\<lambda>public_key.
     bind (call (AccountsDecode account_data) (accounts_decode (ac_coder self) account_data))
       (\<lambda>account.
     ret \<lparr> pa_public_key = public_key, pa_account = account \<rparr>))))"

text \<open>The loop itself (account.py 172-181), with \<^verbatim>\<open>all_accounts\<close> as accumulator.\<close>

fun all_loop ::
  "('b, 'c, 't) World \<Rightarrow> ('b, 'c) AccountClient \<Rightarrow> KeyedAccount list \<Rightarrow> 'c ProgramAccount list
     \<Rightarrow> 'c ProgramAccount list io" where
  "all_loop W self [] all_accounts = ret all_accounts"
| "all_loop W self (r # rs) all_accounts =
     bind (all_record W self r) (\<lambda>pa. all_loop W self rs (all_accounts @ [pa]))"

text \<open>\<^verbatim>\<open>AccountClient.all\<close> (account.py 140-181).\<close>

definition all_accounts_of ::
  "('b, 'c, 't) World \<Rightarrow> ('b, 'c) AccountClient \<Rightarrow> bytes option \<Rightarrow> MemcmpOpts list option
     \<Rightarrow> int option \<Rightarrow> 'c ProgramAccount list io" where
  "all_accounts_of W self buffer memcmp_opts data_size =
     (let discriminator = account_discriminator W (td_name (ac_idl_account self));
          to_encode = (case buffer of None \<Rightarrow> discriminator | Some b \<Rightarrow> discriminator @ b);
          bytes_arg = b58encode_ascii W to_encode;
          base_memcmp_opt = \<lparr> memcmp_offset = 0, memcmp_bytes = bytes_arg \<rparr>;
          extra_memcmpm_opts = (case memcmp_opts of None \<Rightarrow> [] | Some opts \<Rightarrow> opts);
          full_memcmp_opts = [base_memcmp_opt] @ extra_memcmpm_opts;
          commitment = conn_commitment (connection (ac_provider self))
      in
      bind (call (GetProgramAccounts (ac_program_id self) ''base64'' commitment data_size
                    full_memcmp_opts)
              (get_program_accounts (connection (ac_provider self)) (ac_program_id self)
                 ''base64'' commitment data_size full_memcmp_opts))
        (\<lambda>resp_result. all_loop W self resp_result []))"

subsection \<open>build_account\<close>

text \<open>
  A Python \<^verbatim>\<open>dict\<close> is an association list with distinct keys in insertion order:
  \<^verbatim>\<open>d[k] = v\<close> replaces the value of a key already present where it stands and appends a
  new key at the end, which is \<^const>\<open>AList.update\<close>.
\<close>

type_synonym 'v pydict = "(string \<times> 'v) list"

text \<open>The loop of \<^verbatim>\<open>build_account\<close> (account.py 39-41), then the function (21-42).\<close>

fun build_account_loop ::
  "('b, 'c, 't) World \<Rightarrow> Idl \<Rightarrow> ('b, 'c) Coder \<Rightarrow> PublicKey \<Rightarrow> Provider \<Rightarrow> IdlTypeDef list
     \<Rightarrow> ('b, 'c) AccountClient pydict \<Rightarrow> error + ('b, 'c) AccountClient pydict" where
  "build_account_loop W idl coder program_id provider [] accounts_fns = Inr accounts_fns"
| "build_account_loop W idl coder program_id provider (idl_account # rest) accounts_fns =
     bindE (AccountClient_init W idl idl_account coder program_id provider) (\<lambda>account_client.
       build_account_loop W idl coder program_id provider rest
         (AList.update (td_name idl_account) account_client accounts_fns))"

definition build_account ::
  "('b, 'c, 't) World \<Rightarrow> Idl \<Rightarrow> ('b, 'c) Coder \<Rightarrow> PublicKey \<Rightarrow> Provider
     \<Rightarrow> error + ('b, 'c) AccountClient pydict" where
  "build_account W idl coder program_id provider =
     build_account_loop W idl coder program_id provider (Idl_accounts idl) []"

section \<open>core.py\<close>

text \<open>\<^verbatim>\<open>_parse_idl_errors\<close> (core.py 37-50): \<^verbatim>\<open>e.msg if e.msg else e.name\<close>.\<close>

fun parse_idl_errors_loop :: "IdlErrorCode list \<Rightarrow> (int \<times> string) list \<Rightarrow> (int \<times> string) list" where
  "parse_idl_errors_loop [] errors = errors"
| "parse_idl_errors_loop (e # es) errors =
     (let msg = (case err_msg e of
                   None \<Rightarrow> err_name e
                 | Some m \<Rightarrow> if m \<noteq> [] then m else err_name e)
      in parse_idl_errors_loop es (AList.update (err_code e) msg errors))"

definition parse_idl_errors :: "Idl \<Rightarrow> (int \<times> string) list" where
  "parse_idl_errors idl = parse_idl_errors_loop (Idl_errors idl) []"

subsection \<open>The four handles of an instruction\<close>

text \<open>
  Modelled from the spec: \<^verbatim>\<open>InstructionFn\<close>, \<^verbatim>\<open>build_transaction_fn\<close>, \<^verbatim>\<open>build_rpc_item\<close> and
  \<^verbatim>\<open>build_simulate_item\<close> live in namespace modules that are not among the sources. The spec
  describes the handles as a dependency chain (the transaction builder wraps the instruction
  builder; the submitter and the simulation runner send what the transaction builder
  makes), so each handle is the record of the arguments it was built from. \<open>ifn_ref\<close> is
  the identity of the \<^verbatim>\<open>InstructionFn\<close> object: each evaluation of \<^verbatim>\<open>InstructionFn(...)\<close>
  makes a new object, numbered here by the iteration that made it.
\<close>

record 'b InstructionFn =
  ifn_ref :: nat
  ifn_idl_ix :: IdlInstruction
  ifn_encode_fn :: 'b
  ifn_program_id :: PublicKey

record 'b TransactionFn =
  tfn_idl_ix :: IdlInstruction
  tfn_ix_fn :: "'b InstructionFn"

record 'b RpcFn =
  rfn_idl_ix :: IdlInstruction
  rfn_tx_fn :: "'b TransactionFn"
  rfn_idl_errors :: "(int \<times> string) list"
  rfn_provider :: Provider

record ('b, 'c) SimulateFn =
  sfn_idl_ix :: IdlInstruction
  sfn_tx_fn :: "'b TransactionFn"
  sfn_idl_errors :: "(int \<times> string) list"
  sfn_provider :: Provider
  sfn_coder :: "('b, 'c) Coder"
  sfn_program_id :: PublicKey
  sfn_idl :: Idl

definition new_InstructionFn :: "nat \<Rightarrow> IdlInstruction \<Rightarrow> 'b \<Rightarrow> PublicKey \<Rightarrow> 'b InstructionFn" where
  "new_InstructionFn ref idl_ix encode_fn program_id =
     \<lparr> ifn_ref = ref, ifn_idl_ix = idl_ix, ifn_encode_fn = encode_fn,
       ifn_program_id = program_id \<rparr>"

definition build_transaction_fn :: "IdlInstruction \<Rightarrow> 'b InstructionFn \<Rightarrow> 'b TransactionFn" where
  "build_transaction_fn idl_ix ix_fn = \<lparr> tfn_idl_ix = idl_ix, tfn_ix_fn = ix_fn \<rparr>"

definition build_rpc_item ::
  "IdlInstruction \<Rightarrow> 'b TransactionFn \<Rightarrow> (int \<times> string) list \<Rightarrow> Provider \<Rightarrow> 'b RpcFn" where
  "build_rpc_item idl_ix tx_fn idl_errors provider =
     \<lparr> rfn_idl_ix = idl_ix, rfn_tx_fn = tx_fn, rfn_idl_errors = idl_errors,
       rfn_provider = provider \<rparr>"

definition build_simulate_item ::
  "IdlInstruction \<Rightarrow> 'b TransactionFn \<Rightarrow> (int \<times> string) list \<Rightarrow> Provider \<Rightarrow> ('b, 'c) Coder
     \<Rightarrow> PublicKey \<Rightarrow> Idl \<Rightarrow> ('b, 'c) SimulateFn" where
  "build_simulate_item idl_ix tx_fn idl_errors provider coder program_id idl =
     \<lparr> sfn_idl_ix = idl_ix, sfn_tx_fn = tx_fn, sfn_idl_errors = idl_errors,
       sfn_provider = provider, sfn_coder = coder, sfn_program_id = program_id,
       sfn_idl = idl \<rparr>"

subsection \<open>_build_namespace\<close>

text \<open>The four dictionaries the loop of \<^verbatim>\<open>_build_namespace\<close> fills (core.py 79-82).\<close>

record ('b, 'c) IxNamespaces =
  ns_rpc :: "'b RpcFn pydict"
  ns_instruction :: "'b InstructionFn pydict"
  ns_transaction :: "'b TransactionFn pydict"
  ns_simulate :: "('b, 'c) SimulateFn pydict"

text \<open>
  The loop over \<^verbatim>\<open>idl.instructions\<close> (core.py 84-103); \<open>k\<close> counts the iterations done so
  far, and numbers the \<^verbatim>\<open>InstructionFn\<close> object this iteration makes.
\<close>

fun build_namespace_loop ::
  "Idl \<Rightarrow> ('b, 'c) Coder \<Rightarrow> PublicKey \<Rightarrow> Provider \<Rightarrow> (int \<times> string) list \<Rightarrow> nat
     \<Rightarrow> IdlInstruction list \<Rightarrow> ('b, 'c) IxNamespaces \<Rightarrow> ('b, 'c) IxNamespaces" where
  "build_namespace_loop idl coder program_id provider idl_errors k [] ns = ns"
| "build_namespace_loop idl coder program_id provider idl_errors k (idl_ix # rest) ns =
     (let ix_item = new_InstructionFn k idl_ix (instruction_build coder) program_id;
          tx_item = build_transaction_fn idl_ix ix_item;
          rpc_item = build_rpc_item idl_ix tx_item idl_errors provider;
          simulate_item =
            build_simulate_item idl_ix tx_item idl_errors provider coder program_id idl;
          name = ix_name idl_ix
      in build_namespace_loop idl coder program_id provider idl_errors (Suc k) rest
           \<lparr> ns_rpc = AList.update name rpc_item (ns_rpc ns),
             ns_instruction = AList.update name ix_item (ns_instruction ns),
             ns_transaction = AList.update name tx_item (ns_transaction ns),
             ns_simulate = AList.update name simulate_item (ns_simulate ns) \<rparr>)"

text \<open>What \<^verbatim>\<open>_build_namespace\<close> returns: its tuple of six dictionaries.\<close>

record ('b, 'c, 't) Namespaces =
  nsp_rpc :: "'b RpcFn pydict"
  nsp_instruction :: "'b InstructionFn pydict"
  nsp_transaction :: "'b TransactionFn pydict"
  nsp_account :: "('b, 'c) AccountClient pydict"
  nsp_simulate :: "('b, 'c) SimulateFn pydict"
  nsp_types :: 't

text \<open>
  \<^verbatim>\<open>_build_namespace\<close> (core.py 53-107). \<^verbatim>\<open>if idl.accounts\<close> tests a list for truth: the
  empty list is false.
\<close>

definition build_namespace ::
  "('b, 'c, 't) World \<Rightarrow> Idl \<Rightarrow> ('b, 'c) Coder \<Rightarrow> PublicKey \<Rightarrow> Provider
     \<Rightarrow> error + ('b, 'c, 't) Namespaces" where
  "build_namespace W idl coder program_id provider =
     (let idl_errors = parse_idl_errors idl;
          ns = build_namespace_loop idl coder program_id provider idl_errors 0
                 (Idl_instructions idl)
                 \<lparr> ns_rpc = [], ns_instruction = [], ns_transaction = [], ns_simulate = [] \<rparr>
      in
      bindE (if Idl_accounts idl \<noteq> [] then build_account W idl coder program_id provider
             else Inr []) (\<lambda>account.
      bindE (foreign (build_types W idl)) (\<lambda>types.
      Inr \<lparr> nsp_rpc = ns_rpc ns,
            nsp_instruction = ns_instruction ns,
            nsp_transaction = ns_transaction ns,
            nsp_account = account,
            nsp_simulate = ns_simulate ns,
            nsp_types = types \<rparr>)))"

subsection \<open>Program\<close>

text \<open>\<^verbatim>\<open>_pako_inflate\<close> (core.py 110-115): \<^verbatim>\<open>zlib.decompressobj(15)\<close>, fed \<^verbatim>\<open>data\<close>, then flushed.\<close>

definition pako_inflate :: "('b, 'c, 't) World \<Rightarrow> bytes \<Rightarrow> bytes io" where
  "pako_inflate W data = call (ZlibDecompressobj 15 data) (zlib_decompressobj W 15 data)"

record ('b, 'c, 't) Program =
  prog_idl :: Idl
  prog_program_id :: PublicKey
  prog_provider :: Provider
  prog_coder :: "('b, 'c) Coder"
  prog_rpc :: "'b RpcFn pydict"
  prog_instruction :: "'b InstructionFn pydict"
  prog_transaction :: "'b TransactionFn pydict"
  prog_account :: "('b, 'c) AccountClient pydict"
  prog_simulate :: "('b, 'c) SimulateFn pydict"
  prog_type :: 't

text \<open>
  \<^verbatim>\<open>Program.__init__\<close> (core.py 132-166); \<^verbatim>\<open>provider: Optional[Provider] = None\<close>, so a caller
  who omits the argument passes \<open>None\<close>.
\<close>

definition Program_init ::
  "('b, 'c, 't) World \<Rightarrow> Idl \<Rightarrow> PublicKey \<Rightarrow> Provider option \<Rightarrow> error + ('b, 'c, 't) Program" where
  "Program_init W idl program_id provider =
     bindE (case provider of Some p \<Rightarrow> Inr p | None \<Rightarrow> foreign (Provider_local W))
       (\<lambda>self_provider.
     bindE (foreign (new_Coder W idl)) (\<lambda>self_coder.
     bindE (build_namespace W idl self_coder program_id self_provider) (\<lambda>n.
     Inr \<lparr> prog_idl = idl,
           prog_program_id = program_id,
           prog_provider = self_provider,
           prog_coder = self_coder,
           prog_rpc = nsp_rpc n,
           prog_instruction = nsp_instruction n,
           prog_transaction = nsp_transaction n,
           prog_account = nsp_account n,
           prog_simulate = nsp_simulate n,
           prog_type = nsp_types n \<rparr>)))"

text \<open>\<^verbatim>\<open>Program.fetch_idl\<close> (core.py 181-210).\<close>

definition fetch_idl :: "('b, 'c, 't) World \<Rightarrow> Address \<Rightarrow> Provider option \<Rightarrow> Idl io" where
  "fetch_idl W address provider =
     bind (lib (translate_address W address)) (\<lambda>program_id.
     bind (case provider of Some p \<Rightarrow> ret p | None \<Rightarrow> lib (Provider_local W))
       (\<lambda>actual_provider.
     bind (lib (idl_address W program_id)) (\<lambda>idl_addr.
     bind (call (GetAccountInfo (AddrKey idl_addr) None)
             (get_account_info (connection actual_provider) (AddrKey idl_addr) None))
       (\<lambda>account_info_val.
     case account_info_val of
       None \<Rightarrow> raise IdlNotFoundError
     | Some v \<Rightarrow>
         bind ([], subscript0 (aiv_data v)) (\<lambda>data0.
         bind (lib (b64decode W data0)) (\<lambda>decoded.
         bind (lib (decode_idl_account W (drop ACCOUNT_DISCRIMINATOR_SIZE decoded)))
           (\<lambda>idl_account.
         bind (pako_inflate W (idl_account_data idl_account)) (\<lambda>inflated.
         bind (lib (utf8_decode W inflated)) (\<lambda>inflated_idl.
         bind (lib (json_loads W inflated_idl)) (\<lambda>parsed.
         lib (Idl_from_json W parsed)))))))))))"

text \<open>\<^verbatim>\<open>Program.at\<close> (core.py 212-232).\<close>

definition Program_at ::
  "('b, 'c, 't) World \<Rightarrow> Address \<Rightarrow> Provider option \<Rightarrow> ('b, 'c, 't) Program io" where
  "Program_at W address provider =
     bind (lib (translate_address W address)) (\<lambda>program_id.
     bind (fetch_idl W (AddrKey program_id) provider) (\<lambda>idl.
     ([], Program_init W idl program_id provider)))"

section \<open>A concrete world\<close>

text \<open>
  Stand-ins for the collaborators, used to run the model on concrete inputs. The
  discriminators are the first 8 bytes of SHA-256 of \<^verbatim>\<open>account:Counter\<close> and
  \<^verbatim>\<open>account:Config\<close>; the base-64 and base-58 texts are those of the bytes beside them.
\<close>

definition counter_discriminator :: bytes where
  "counter_discriminator = [255, 176, 4, 245, 188, 253, 124, 25]"

definition config_discriminator :: bytes where
  "config_discriminator = [155, 12, 170, 224, 30, 250, 204, 130]"

definition counter_bytes :: bytes where
  "counter_bytes = [255, 176, 4, 245, 188, 253, 124, 25, 42, 0, 0, 0, 0, 0, 0, 0]"

definition config_bytes :: bytes where
  "config_bytes = [155, 12, 170, 224, 30, 250, 204, 130, 7, 0, 0, 0, 0, 0, 0, 0]"

text \<open>
  A published schema account: 8 bytes of discriminator, 32 of authority, a 4-byte length
  and the zlib stream of the text \<^verbatim>\<open>{}\<close>.
\<close>

definition idl_zlib_stream :: bytes where
  "idl_zlib_stream = [120, 156, 171, 174, 5, 0, 1, 117, 0, 249]"

definition idl_account_bytes :: bytes where
  "idl_account_bytes =
     [10, 105, 233, 167, 120, 188, 244, 64] @ replicate 32 7 @ [10, 0, 0, 0] @ idl_zlib_stream"

definition test_program_id :: PublicKey where
  "test_program_id = replicate 32 1"

definition test_idl_address :: PublicKey where
  "test_idl_address = replicate 32 2"

definition test_connection :: Connection where
  "test_connection =
     \<lparr> get_account_info = (\<lambda>address encoding.
         if address = AddrStr ''CounterAddress''
           then Inr (Some \<lparr> aiv_data = [''/7AE9bz9fBkqAAAAAAAAAA=='', ''base64''] \<rparr>)
         else if address = AddrStr ''ConfigAddress''
           then Inr (Some \<lparr> aiv_data = [''mwyq4B76zIIHAAAAAAAAAA=='', ''base64''] \<rparr>)
         else if address = AddrStr ''ShortAddress''
           then Inr (Some \<lparr> aiv_data = [''AQID'', ''base64''] \<rparr>)
         else if address = AddrKey test_idl_address
           then Inr (Some \<lparr> aiv_data = [''Cmnpp3i89EAHBwcHBwcHBwcHBwcHBwcHBwcHBwcHBwcHBwcHBwcHBwoAAAB4nKuuBQABdQD5'', ''base64''] \<rparr>)
         else Inr None),
       get_program_accounts = (\<lambda>program_id encoding commitment data_size memcmp_opts.
         if data_size = Some 16
           then Inr [\<lparr> ka_pubkey = ''CounterAddress'',
                       ka_account_data = [''/7AE9bz9fBkqAAAAAAAAAA=='', ''base64''] \<rparr>,
                     \<lparr> ka_pubkey = ''ConfigAddress'',
                       ka_account_data = [''mwyq4B76zIIHAAAAAAAAAA=='', ''base64''] \<rparr>]
         else Inr [\<lparr> ka_pubkey = ''CounterAddress'',
                     ka_account_data = [''/7AE9bz9fBkqAAAAAAAAAA=='', ''base64''] \<rparr>,
                   \<lparr> ka_pubkey = ''ShortAddress'',
                     ka_account_data = [''AQID'', ''base64''] \<rparr>,
                   \<lparr> ka_pubkey = ''ConfigAddress'',
                     ka_account_data = [''mwyq4B76zIIHAAAAAAAAAA=='', ''base64''] \<rparr>]),
       get_minimum_balance_for_rent_exemption = (\<lambda>space. Inr ((128 + space) * 6960)),
       conn_commitment = ''finalized'' \<rparr>"

definition test_provider :: Provider where
  "test_provider =
     \<lparr> connection = test_connection, wallet = \<lparr> wallet_public_key = replicate 32 3 \<rparr> \<rparr>"

definition local_provider :: Provider where
  "local_provider =
     \<lparr> connection = test_connection, wallet = \<lparr> wallet_public_key = replicate 32 4 \<rparr> \<rparr>"

definition test_coder :: "(string, (string \<times> int) list) Coder" where
  "test_coder =
     \<lparr> instruction_build = ''coder.instruction.build'',
       accounts_decode = (\<lambda>data.
         if data = counter_bytes then Inr [(''count'', 42)]
         else if data = config_bytes then Inr [(''value'', 7)]
         else Inl ''ConstructError'') \<rparr>"

definition test_world :: "(string, (string \<times> int) list, string list) World" where
  "test_world =
     \<lparr> account_discriminator = (\<lambda>name.
         if name = ''Counter'' then counter_discriminator else config_discriminator),
       account_size = (\<lambda>idl idl_account. Inr (8 * int (length (td_fields idl_account)))),
       b64decode = (\<lambda>s.
         if s = ''/7AE9bz9fBkqAAAAAAAAAA=='' then Inr counter_bytes
         else if s = ''mwyq4B76zIIHAAAAAAAAAA=='' then Inr config_bytes
         else if s = ''AQID'' then Inr [1, 2, 3]
         else if s = ''Cmnpp3i89EAHBwcHBwcHBwcHBwcHBwcHBwcHBwcHBwcHBwcHBwcHBwoAAAB4nKuuBQABdQD5'' then Inr idl_account_bytes
         else Inl ''binascii.Error''),
       b58encode_ascii = (\<lambda>v.
         if v = counter_discriminator then ''jmVQbGxuVYt''
         else if v = counter_discriminator @ [42] then ''4FmNP8HTkh1iq''
         else ''''),
       new_PublicKey = (\<lambda>s.
         if s = ''CounterAddress'' then Inr (replicate 32 5)
         else if s = ''ConfigAddress'' then Inr (replicate 32 6)
         else if s = ''ShortAddress'' then Inr (replicate 32 8)
         else Inl ''ValueError''),
       create_account = (\<lambda>params.
         if 0 \<le> cap_space params \<and> cap_space params < 18446744073709551616
            \<and> 0 \<le> cap_lamports params \<and> cap_lamports params < 18446744073709551616
         then Inr \<lparr> ti_keys = [(cap_from_pubkey params, True, True),
                               (cap_new_account_pubkey params, True, True)],
                    ti_program_id = replicate 32 0,
                    ti_data = [] \<rparr>
         else Inl ''FormatFieldError''),
       translate_address = (\<lambda>address.
         case address of AddrKey k \<Rightarrow> Inr k | AddrStr s \<Rightarrow> Inl ''ValueError''),
       idl_address = (\<lambda>program_id.
         if program_id = test_program_id then Inr test_idl_address else Inr (replicate 32 10)),
       decode_idl_account = (\<lambda>data.
         if length data < 36 then Inl ''StreamError''
         else Inr \<lparr> idl_account_data = drop 36 data \<rparr>),
       zlib_decompressobj = (\<lambda>wbits data.
         if wbits = 15 \<and> data = idl_zlib_stream then Inr [123, 125]
         else Inl ''zlib.error''),
       utf8_decode = (\<lambda>data. if data = [123, 125] then Inr ''{}'' else Inl ''UnicodeDecodeError''),
       json_loads = (\<lambda>s. if s = ''{}'' then Inr (JDict []) else Inl ''JSONDecodeError''),
       Idl_from_json = (\<lambda>j.
         if j = JDict []
         then Inr \<lparr> Idl_instructions = [], Idl_accounts = [], Idl_types = [], Idl_errors = [] \<rparr>
         else Inl ''KeyError''),
       Provider_local = Inr local_provider,
       new_Coder = (\<lambda>idl. Inr test_coder),
       build_types = (\<lambda>idl. Inr (map td_name (Idl_types idl))) \<rparr>"

definition counter_typedef :: IdlTypeDef where
  "counter_typedef = \<lparr> td_name = ''Counter'', td_fields = [(''count'', ''u64'')] \<rparr>"

definition initialize_ix :: IdlInstruction where
  "initialize_ix = \<lparr> ix_name = ''initialize'', ix_args = [], ix_accounts = [''counter''] \<rparr>"

definition increment_ix :: IdlInstruction where
  "increment_ix =
     \<lparr> ix_name = ''increment'', ix_args = [(''by'', ''u64'')], ix_accounts = [''counter''] \<rparr>"

definition initialize_again_ix :: IdlInstruction where
  "initialize_again_ix =
     \<lparr> ix_name = ''initialize'', ix_args = [(''start'', ''u64'')], ix_accounts = [''counter''] \<rparr>"

definition test_idl :: Idl where
  "test_idl =
     \<lparr> Idl_instructions = [initialize_ix, increment_ix, initialize_again_ix],
       Idl_accounts = [counter_typedef],
       Idl_types = [],
       Idl_errors = [\<lparr> err_code = 6000, err_name = ''Unauthorized'',
                      err_msg = Some ''Unauthorized'' \<rparr>] \<rparr>"

definition counter_client :: "(string, (string \<times> int) list) AccountClient" where
  "counter_client =
     \<lparr> ac_idl_account = counter_typedef,
       ac_program_id = test_program_id,
       ac_provider = test_provider,
       ac_coder = test_coder,
       ac_size = 16 \<rparr>"


section \<open>Sequencing lemmas\<close>

lemma bind_Inl [simp]: "bind (t, Inl e) f = (t, Inl e)"
  by (simp add: bind_def)

lemma bind_Inr [simp]: "bind (t, Inr x) f = (t @ fst (f x), snd (f x))"
  by (simp add: bind_def split: prod.splits)

lemma bind_snd_Inl: "snd m = Inl e \<Longrightarrow> bind m f = (fst m, Inl e)"
  by (cases m) simp

lemma bind_snd_Inr: "snd m = Inr x \<Longrightarrow> bind m f = (fst m @ fst (f x), snd (f x))"
  by (cases m) simp

lemma foreign_simps [simp]:
  "foreign (Inl x) = Inl (Foreign x)" "foreign (Inr v) = Inr v"
  by (simp_all add: foreign_def)

lemma bindE_simps [simp]:
  "bindE (Inl e) f = Inl e" "bindE (Inr x) f = f x"
  by (simp_all add: bindE_def)

lemma fst_bind_call:
  "fst (bind (call ev r) f) = ev # (case r of Inl x \<Rightarrow> [] | Inr v \<Rightarrow> fst (f v))"
  by (simp add: call_def split: sum.splits)

lemma snd_bind_call:
  "snd (bind (call ev r) f) = (case r of Inl x \<Rightarrow> Inl (Foreign x) | Inr v \<Rightarrow> snd (f v))"
  by (simp add: call_def split: sum.splits)

lemmas fixture_defs = test_world_def test_connection_def test_provider_def test_coder_def
  counter_client_def counter_typedef_def counter_discriminator_def config_discriminator_def
  counter_bytes_def config_bytes_def

section \<open>AccountClient.fetch\<close>

text \<open>
  C1. Let the transport answer with a value whose first data element base-64-decodes to a
  payload of at least 8 bytes. If the first 8 bytes of the payload differ from the
  discriminator of the client's account name, \<open>fetch\<close> raises
  \<open>AccountInvalidDiscriminator\<close> and the only collaborator call it has made is the one to
  the transport: the account coder's decode has not been called. If they are equal, the
  whole payload is handed to the account coder's decode, whose outcome is the outcome of
  \<open>fetch\<close>. This holds for every client, so for every account name.
\<close>

theorem fetch_discriminator_check:
  assumes "get_account_info (connection (ac_provider self)) address (Some ''base64'')
             = Inr (Some v)"
    and "aiv_data v = data0 # rest"
    and "b64decode W data0 = Inr payload"
    and "8 \<le> length payload"
  shows "fetch W self address =
    (if take 8 payload \<noteq> account_discriminator W (td_name (ac_idl_account self))
     then ([GetAccountInfo address (Some ''base64'')], Inl AccountInvalidDiscriminator)
     else ([GetAccountInfo address (Some ''base64''), AccountsDecode payload],
           foreign (accounts_decode (ac_coder self) payload)))"
  using assms
  by (auto simp: fetch_def call_def lib_def raise_def subscript0_def
      ACCOUNT_DISCRIMINATOR_SIZE_def)

theorem fetch_discriminator_check_witness:
  "fetch test_world counter_client (AddrStr ''ConfigAddress'') =
     ([GetAccountInfo (AddrStr ''ConfigAddress'') (Some ''base64'')],
      Inl AccountInvalidDiscriminator)
   \<and> fetch test_world counter_client (AddrStr ''CounterAddress'') =
     ([GetAccountInfo (AddrStr ''CounterAddress'') (Some ''base64''),
       AccountsDecode counter_bytes], Inr [(''count'', 42)])"
  using fetch_discriminator_check [of counter_client "AddrStr ''ConfigAddress''"
      "\<lparr> aiv_data = [''mwyq4B76zIIHAAAAAAAAAA=='', ''base64''] \<rparr>"
      "''mwyq4B76zIIHAAAAAAAAAA==''" "[''base64'']" test_world config_bytes]
    fetch_discriminator_check [of counter_client "AddrStr ''CounterAddress''"
      "\<lparr> aiv_data = [''/7AE9bz9fBkqAAAAAAAAAA=='', ''base64''] \<rparr>"
      "''/7AE9bz9fBkqAAAAAAAAAA==''" "[''base64'']" test_world counter_bytes]
  by (simp add: fixture_defs)

text \<open>
  C2, as the spec states it, fails on the second half: data shorter than 8 bytes is not
  rejected by a decode-level error. \<^verbatim>\<open>data[:8]\<close> of a short payload is the payload itself,
  which cannot equal an 8-byte discriminator, so \<open>fetch\<close> raises
  \<open>AccountInvalidDiscriminator\<close>. Here the transport answers \<^verbatim>\<open>AQID\<close>, the base-64 text of
  the three bytes 1, 2, 3.
\<close>

theorem fetch_short_data_counterexample:
  "get_account_info (connection (ac_provider counter_client)) (AddrStr ''ShortAddress'')
       (Some ''base64'') = Inr (Some \<lparr> aiv_data = [''AQID'', ''base64''] \<rparr>)
   \<and> b64decode test_world ''AQID'' = Inr [1, 2, 3]
   \<and> fetch test_world counter_client (AddrStr ''ShortAddress'') =
       ([GetAccountInfo (AddrStr ''ShortAddress'') (Some ''base64'')],
        Inl AccountInvalidDiscriminator)"
  by (simp add: fixture_defs fetch_def call_def lib_def raise_def subscript0_def
      ACCOUNT_DISCRIMINATOR_SIZE_def)

text \<open>
  C2, amended. When the transport reports no value at the address, \<open>fetch\<close> raises
  \<open>AccountDoesNotExistError\<close>. When the transport returns data shorter than 8 bytes and
  the discriminator is 8 bytes long, \<open>fetch\<close> raises \<open>AccountInvalidDiscriminator\<close>, and
  the account coder's decode is not called.
\<close>

theorem fetch_absent_or_short:
  "(get_account_info (connection (ac_provider self)) address (Some ''base64'') = Inr None
      \<longrightarrow> fetch W self address =
            ([GetAccountInfo address (Some ''base64'')], Inl AccountDoesNotExistError))
   \<and> (get_account_info (connection (ac_provider self)) address (Some ''base64'')
          = Inr (Some v)
        \<and> aiv_data v = data0 # rest \<and> b64decode W data0 = Inr payload
        \<and> length payload < 8
        \<and> length (account_discriminator W (td_name (ac_idl_account self))) = 8
      \<longrightarrow> fetch W self address =
            ([GetAccountInfo address (Some ''base64'')], Inl AccountInvalidDiscriminator))"
  by (auto simp: fetch_def call_def lib_def raise_def subscript0_def
      ACCOUNT_DISCRIMINATOR_SIZE_def)

theorem fetch_absent_or_short_witness:
  "fetch test_world counter_client (AddrStr ''Nowhere'') =
     ([GetAccountInfo (AddrStr ''Nowhere'') (Some ''base64'')], Inl AccountDoesNotExistError)
   \<and> fetch test_world counter_client (AddrStr ''ShortAddress'') =
     ([GetAccountInfo (AddrStr ''ShortAddress'') (Some ''base64'')],
      Inl AccountInvalidDiscriminator)"
  using fetch_absent_or_short [of counter_client "AddrStr ''Nowhere''" test_world]
    fetch_absent_or_short [of counter_client "AddrStr ''ShortAddress''" test_world
      "\<lparr> aiv_data = [''AQID'', ''base64''] \<rparr>" "''AQID''" "[''base64'']" "[1, 2, 3]"]
  by (simp add: fixture_defs)

section \<open>AccountClient.all\<close>

text \<open>
  C3. The first thing \<open>all\<close> does is one call to the transport's program-account search,
  and the filter list that call receives starts with the filter at offset 0 over
  \<open>discriminator @ b\<close> when a buffer \<open>b\<close> is given and over the bare discriminator when
  it is not, followed by the caller's own filters in the caller's order (none when the
  caller gives none). The filter carries its bytes as base-58 text, the form the transport
  takes them in.
\<close>

theorem all_filters:
  "(\<exists>rest. fst (all_accounts_of W self (Some b) (Some opts) data_size) =
      GetProgramAccounts (ac_program_id self) ''base64''
        (conn_commitment (connection (ac_provider self))) data_size
        (\<lparr> memcmp_offset = 0,
            memcmp_bytes = b58encode_ascii W
              (account_discriminator W (td_name (ac_idl_account self)) @ b) \<rparr> # opts) # rest)
   \<and> (\<exists>rest. fst (all_accounts_of W self (Some b) None data_size) =
      GetProgramAccounts (ac_program_id self) ''base64''
        (conn_commitment (connection (ac_provider self))) data_size
        [\<lparr> memcmp_offset = 0,
            memcmp_bytes = b58encode_ascii W
              (account_discriminator W (td_name (ac_idl_account self)) @ b) \<rparr>] # rest)
   \<and> (\<exists>rest. fst (all_accounts_of W self None (Some opts) data_size) =
      GetProgramAccounts (ac_program_id self) ''base64''
        (conn_commitment (connection (ac_provider self))) data_size
        (\<lparr> memcmp_offset = 0,
            memcmp_bytes = b58encode_ascii W
              (account_discriminator W (td_name (ac_idl_account self))) \<rparr> # opts) # rest)
   \<and> (\<exists>rest. fst (all_accounts_of W self None None data_size) =
      GetProgramAccounts (ac_program_id self) ''base64''
        (conn_commitment (connection (ac_provider self))) data_size
        [\<lparr> memcmp_offset = 0,
            memcmp_bytes = b58encode_ascii W
              (account_discriminator W (td_name (ac_idl_account self))) \<rparr>] # rest)"
  by (simp_all add: all_accounts_of_def Let_def fst_bind_call)

section \<open>AccountClient.create_instruction\<close>

text \<open>
  C6. A client made by \<^verbatim>\<open>AccountClient.__init__\<close> has size 8 plus the layout size
  \<^verbatim>\<open>_account_size\<close> computes for its account type, and keeps the provider and program address
  it was given. \<open>create_instruction\<close> takes as space \<open>size_override\<close> when that is not 0
  and the client's size otherwise; its only call to the transport is the rent-exemption
  query at that space (nothing is submitted); and when the query answers, its outcome is
  that of \<^verbatim>\<open>create_account\<close> on the provider wallet's key as payer, the signer's key as new
  address, that space, the balance the query returned and the client's program address: the
  instruction \<^verbatim>\<open>create_account\<close> returns, or the exception it raises.
\<close>

theorem create_instruction_space_and_rent:
  "(AccountClient_init W idl idl_account coder program_id provider = Inr client \<longrightarrow>
      (\<exists>n. account_size W idl idl_account = Inr n \<and> ac_size client = 8 + n)
      \<and> ac_provider client = provider \<and> ac_program_id client = program_id)
   \<and> create_instruction W self signer size_override =
       ([GetMinimumBalanceForRentExemption
           (if size_override \<noteq> 0 then size_override else ac_size self)],
        case get_minimum_balance_for_rent_exemption (connection (ac_provider self))
               (if size_override \<noteq> 0 then size_override else ac_size self) of
          Inl x \<Rightarrow> Inl (Foreign x)
        | Inr balance \<Rightarrow>
            foreign (create_account W
                   \<lparr> cap_from_pubkey = wallet_public_key (wallet (ac_provider self)),
                     cap_new_account_pubkey = keypair_public_key signer,
                     cap_space = (if size_override \<noteq> 0 then size_override else ac_size self),
                     cap_lamports = balance,
                     cap_program_id = ac_program_id self \<rparr>))"
proof (intro conjI impI)
  assume a: "AccountClient_init W idl idl_account coder program_id provider = Inr client"
  then show "\<exists>n. account_size W idl idl_account = Inr n \<and> ac_size client = 8 + n"
    by (cases "account_size W idl idl_account")
       (auto simp: AccountClient_init_def ACCOUNT_DISCRIMINATOR_SIZE_def)
  from a show "ac_provider client = provider"
    by (cases "account_size W idl idl_account") (auto simp: AccountClient_init_def)
  from a show "ac_program_id client = program_id"
    by (cases "account_size W idl idl_account") (auto simp: AccountClient_init_def)
next
  show "create_instruction W self signer size_override =
       ([GetMinimumBalanceForRentExemption
           (if size_override \<noteq> 0 then size_override else ac_size self)],
        case get_minimum_balance_for_rent_exemption (connection (ac_provider self))
               (if size_override \<noteq> 0 then size_override else ac_size self) of
          Inl x \<Rightarrow> Inl (Foreign x)
        | Inr balance \<Rightarrow>
            foreign (create_account W
                   \<lparr> cap_from_pubkey = wallet_public_key (wallet (ac_provider self)),
                     cap_new_account_pubkey = keypair_public_key signer,
                     cap_space = (if size_override \<noteq> 0 then size_override else ac_size self),
                     cap_lamports = balance,
                     cap_program_id = ac_program_id self \<rparr>))"
    by (simp add: create_instruction_def Let_def call_def lib_def split: sum.splits)
qed

theorem create_instruction_space_and_rent_witness:
  "AccountClient_init test_world test_idl counter_typedef test_coder test_program_id
       test_provider = Inr counter_client
   \<and> ac_size counter_client = 8 + 8
   \<and> create_instruction test_world counter_client
        \<lparr> keypair_public_key = replicate 32 9 \<rparr> 0 =
       ([GetMinimumBalanceForRentExemption 16],
        foreign (create_account test_world
               \<lparr> cap_from_pubkey = replicate 32 3,
                 cap_new_account_pubkey = replicate 32 9,
                 cap_space = 16,
                 cap_lamports = 1002240,
                 cap_program_id = test_program_id \<rparr>))
   \<and> create_instruction test_world counter_client
        \<lparr> keypair_public_key = replicate 32 9 \<rparr> 100 =
       ([GetMinimumBalanceForRentExemption 100],
        Inr \<lparr> ti_keys = [(replicate 32 3, True, True), (replicate 32 9, True, True)],
              ti_program_id = replicate 32 0, ti_data = [] \<rparr>)"
proof -
  have init: "AccountClient_init test_world test_idl counter_typedef test_coder
      test_program_id test_provider = Inr counter_client"
    by (simp add: AccountClient_init_def ACCOUNT_DISCRIMINATOR_SIZE_def fixture_defs)
  have made: "create_account test_world
               \<lparr> cap_from_pubkey = replicate 32 3,
                 cap_new_account_pubkey = replicate 32 9,
                 cap_space = 100,
                 cap_lamports = 1586880,
                 cap_program_id = test_program_id \<rparr> =
        Inr \<lparr> ti_keys = [(replicate 32 3, True, True), (replicate 32 9, True, True)],
              ti_program_id = replicate 32 0, ti_data = [] \<rparr>"
    by (simp add: test_world_def)
  show ?thesis
    using init made
      create_instruction_space_and_rent [of test_world test_idl counter_typedef test_coder
        test_program_id test_provider counter_client counter_client
        "\<lparr> keypair_public_key = replicate 32 9 \<rparr>" 0]
      create_instruction_space_and_rent [of test_world test_idl counter_typedef test_coder
        test_program_id test_provider counter_client counter_client
        "\<lparr> keypair_public_key = replicate 32 9 \<rparr>" 100]
    by (simp add: test_connection_def test_provider_def counter_client_def)
qed

text \<open>
  C10, as the claim states it, fails on its last part: a negative \<open>size_override\<close> is
  not placed in a returned instruction. \<open>create_instruction\<close> passes it on unchecked,
  first to the rent-exemption query and then to \<^verbatim>\<open>create_account\<close>, which packs the space as
  an unsigned 64-bit integer and raises; no instruction is returned. Here the override is
  -1, the transport answers the rent query, and the call ends with the exception of
  \<^verbatim>\<open>create_account\<close>.
\<close>

theorem create_instruction_negative_override_counterexample:
  "get_minimum_balance_for_rent_exemption (connection (ac_provider counter_client)) (- 1)
     = Inr 883920
   \<and> create_instruction test_world counter_client
        \<lparr> keypair_public_key = replicate 32 9 \<rparr> (- 1) =
       ([GetMinimumBalanceForRentExemption (- 1)], Inl (Foreign ''FormatFieldError''))"
  by (simp add: create_instruction_def Let_def call_def lib_def test_world_def
      test_connection_def test_provider_def counter_client_def)

text \<open>
  C10, amended. \<open>create_instruction\<close> distinguishes only zero from nonzero
  \<open>size_override\<close>: a negative value is used unchanged, with no validation or clamping,
  as the space the rent-exemption query is asked about and, when the query answers, as the
  space of the parameters handed to \<^verbatim>\<open>create_account\<close>; the call returns what
  \<^verbatim>\<open>create_account\<close> returns for those parameters and raises what it raises.
\<close>

theorem create_instruction_negative_override:
  "size_override < 0 \<Longrightarrow>
     create_instruction W self signer size_override =
       ([GetMinimumBalanceForRentExemption size_override],
        case get_minimum_balance_for_rent_exemption (connection (ac_provider self))
               size_override of
          Inl x \<Rightarrow> Inl (Foreign x)
        | Inr balance \<Rightarrow>
            foreign (create_account W
                   \<lparr> cap_from_pubkey = wallet_public_key (wallet (ac_provider self)),
                     cap_new_account_pubkey = keypair_public_key signer,
                     cap_space = size_override,
                     cap_lamports = balance,
                     cap_program_id = ac_program_id self \<rparr>))"
  by (simp add: create_instruction_def Let_def call_def lib_def split: sum.splits)

theorem create_instruction_negative_override_witness:
  "(- 5 :: int) < 0
   \<and> create_instruction test_world counter_client
        \<lparr> keypair_public_key = replicate 32 9 \<rparr> (- 5) =
       ([GetMinimumBalanceForRentExemption (- 5)],
        foreign (create_account test_world
               \<lparr> cap_from_pubkey = replicate 32 3,
                 cap_new_account_pubkey = replicate 32 9,
                 cap_space = - 5,
                 cap_lamports = 856080,
                 cap_program_id = test_program_id \<rparr>))"
  using create_instruction_negative_override [of "- 5" test_world counter_client
      "\<lparr> keypair_public_key = replicate 32 9 \<rparr>"]
  by (simp add: test_connection_def test_provider_def counter_client_def)

section \<open>The loop of AccountClient.all\<close>

lemma all_loop_ok:
  "\<forall>r\<in>set rs. \<exists>p. snd (all_record W self r) = Inr p \<Longrightarrow>
     all_loop W self rs acc =
       (concat (map (\<lambda>r. fst (all_record W self r)) rs),
        Inr (acc @ map (\<lambda>r. projr (snd (all_record W self r))) rs))"
proof (induction rs arbitrary: acc)
  case Nil
  then show ?case by (simp add: ret_def)
next
  case (Cons r rs)
  from Cons.prems obtain p where p: "snd (all_record W self r) = Inr p" by auto
  have rest: "\<forall>r\<in>set rs. \<exists>p. snd (all_record W self r) = Inr p"
    using Cons.prems by simp
  show ?case
    by (simp add: bind_snd_Inr [OF p] Cons.IH [OF rest] p)
qed

lemma all_loop_fail:
  "i < length rs \<Longrightarrow> \<forall>j<i. \<exists>p. snd (all_record W self (rs ! j)) = Inr p \<Longrightarrow>
   snd (all_record W self (rs ! i)) = Inl e \<Longrightarrow>
     all_loop W self rs acc =
       (concat (map (\<lambda>r. fst (all_record W self r)) (take (Suc i) rs)), Inl e)"
proof (induction rs arbitrary: acc i)
  case Nil
  then show ?case by simp
next
  case (Cons r rs)
  show ?case
  proof (cases i)
    case 0
    with Cons.prems have e: "snd (all_record W self r) = Inl e" by simp
    show ?thesis
      using 0 by (simp add: bind_snd_Inl [OF e])
  next
    case (Suc k)
    have "0 < i" using Suc by simp
    with Cons.prems(2) have "\<exists>p. snd (all_record W self ((r # rs) ! 0)) = Inr p"
      by blast
    then obtain p where p: "snd (all_record W self r) = Inr p" by auto
    have k: "k < length rs" using Cons.prems Suc by simp
    have before: "\<forall>j<k. \<exists>p. snd (all_record W self (rs ! j)) = Inr p"
    proof (intro allI impI)
      fix j assume "j < k"
      then have "Suc j < i" using Suc by simp
      with Cons.prems(2) have "\<exists>p. snd (all_record W self ((r # rs) ! Suc j)) = Inr p"
        by blast
      then show "\<exists>p. snd (all_record W self (rs ! j)) = Inr p" by simp
    qed
    have at: "snd (all_record W self (rs ! k)) = Inl e"
      using Cons.prems(3) Suc by simp
    show ?thesis
      by (simp add: bind_snd_Inr [OF p] Cons.IH [OF k before at] Suc)
  qed
qed

lemma all_record_eval:
  "all_record W self r =
     (case ka_account_data r of
        [] \<Rightarrow> ([], Inl IndexError)
      | d # ds \<Rightarrow>
          (case b64decode W d of
             Inl x \<Rightarrow> ([], Inl (Foreign x))
           | Inr raw \<Rightarrow>
               (case new_PublicKey W (ka_pubkey r) of
                  Inl x \<Rightarrow> ([], Inl (Foreign x))
                | Inr pk \<Rightarrow>
                    (case accounts_decode (ac_coder self) raw of
                       Inl x \<Rightarrow> ([AccountsDecode raw], Inl (Foreign x))
                     | Inr a \<Rightarrow>
                         ([AccountsDecode raw],
                          Inr \<lparr> pa_public_key = pk, pa_account = a \<rparr>)))))"
  by (simp add: all_record_def subscript0_def lib_def call_def ret_def
      split: list.splits sum.splits)

lemma all_record_Inr:
  "snd (all_record W self r) = Inr p \<Longrightarrow>
     \<exists>d ds raw. ka_account_data r = d # ds \<and> b64decode W d = Inr raw
       \<and> new_PublicKey W (ka_pubkey r) = Inr (pa_public_key p)
       \<and> accounts_decode (ac_coder self) raw = Inr (pa_account p)
       \<and> fst (all_record W self r) = [AccountsDecode raw]"
  unfolding all_record_eval
  by (auto split: list.splits sum.splits)

lemma all_record_decode_fails:
  "ka_account_data r = d # ds \<Longrightarrow> b64decode W d = Inr raw \<Longrightarrow>
   new_PublicKey W (ka_pubkey r) = Inr pk \<Longrightarrow>
   accounts_decode (ac_coder self) raw = Inl x \<Longrightarrow>
     snd (all_record W self r) = Inl (Foreign x)"
  by (simp add: all_record_eval)

text \<open>
  C8. Let the transport's one batched call answer with the records \<open>resp\<close>. The loop body
  \<open>all_record\<close> base-64-decodes a record's data, builds its address and decodes the data
  with the account coder. If every record goes through, \<open>all\<close> returns one pair per
  record, in the order of \<open>resp\<close>, each holding that record's address and decoded value,
  and the coder has been called once per record in that order. If some record fails and the
  records before it do not, \<open>all\<close> raises that record's error: nothing is skipped and no
  partial list is returned. A record whose data the coder rejects fails with the coder's
  error.
\<close>

theorem all_decodes_every_record:
  assumes resp: "get_program_accounts (connection (ac_provider self)) (ac_program_id self)
            ''base64'' (conn_commitment (connection (ac_provider self))) data_size
            (\<lparr> memcmp_offset = 0,
                memcmp_bytes = b58encode_ascii W
                  (case buffer of
                     None \<Rightarrow> account_discriminator W (td_name (ac_idl_account self))
                   | Some b \<Rightarrow> account_discriminator W (td_name (ac_idl_account self)) @ b) \<rparr>
             # (case memcmp_opts of None \<Rightarrow> [] | Some opts \<Rightarrow> opts)) = Inr resp"
  shows
    "((\<forall>r\<in>set resp. \<exists>p. snd (all_record W self r) = Inr p) \<longrightarrow>
        snd (all_accounts_of W self buffer memcmp_opts data_size) =
          Inr (map (\<lambda>r. projr (snd (all_record W self r))) resp)
        \<and> tl (fst (all_accounts_of W self buffer memcmp_opts data_size)) =
          concat (map (\<lambda>r. fst (all_record W self r)) resp))
     \<and> (\<forall>i e. i < length resp
            \<and> (\<forall>j<i. \<exists>p. snd (all_record W self (resp ! j)) = Inr p)
            \<and> snd (all_record W self (resp ! i)) = Inl e \<longrightarrow>
          snd (all_accounts_of W self buffer memcmp_opts data_size) = Inl e)
     \<and> (\<forall>r p. snd (all_record W self r) = Inr p \<longrightarrow>
          (\<exists>d ds raw. ka_account_data r = d # ds \<and> b64decode W d = Inr raw
             \<and> new_PublicKey W (ka_pubkey r) = Inr (pa_public_key p)
             \<and> accounts_decode (ac_coder self) raw = Inr (pa_account p)
             \<and> fst (all_record W self r) = [AccountsDecode raw]))
     \<and> (\<forall>r d ds raw pk x. ka_account_data r = d # ds \<and> b64decode W d = Inr raw
            \<and> new_PublicKey W (ka_pubkey r) = Inr pk
            \<and> accounts_decode (ac_coder self) raw = Inl x \<longrightarrow>
          snd (all_record W self r) = Inl (Foreign x))"
proof -
  have unfold: "all_accounts_of W self buffer memcmp_opts data_size =
      ([GetProgramAccounts (ac_program_id self) ''base64''
          (conn_commitment (connection (ac_provider self))) data_size
          (\<lparr> memcmp_offset = 0,
              memcmp_bytes = b58encode_ascii W
                (case buffer of
                   None \<Rightarrow> account_discriminator W (td_name (ac_idl_account self))
                 | Some b \<Rightarrow> account_discriminator W (td_name (ac_idl_account self)) @ b) \<rparr>
           # (case memcmp_opts of None \<Rightarrow> [] | Some opts \<Rightarrow> opts))]
         @ fst (all_loop W self resp []),
       snd (all_loop W self resp []))"
    using resp by (simp add: all_accounts_of_def Let_def call_def)
  have ok: "(\<forall>r\<in>set resp. \<exists>p. snd (all_record W self r) = Inr p) \<longrightarrow>
        snd (all_accounts_of W self buffer memcmp_opts data_size) =
          Inr (map (\<lambda>r. projr (snd (all_record W self r))) resp)
        \<and> tl (fst (all_accounts_of W self buffer memcmp_opts data_size)) =
          concat (map (\<lambda>r. fst (all_record W self r)) resp)"
    by (simp add: unfold all_loop_ok)
  have fail: "\<forall>i e. i < length resp
            \<and> (\<forall>j<i. \<exists>p. snd (all_record W self (resp ! j)) = Inr p)
            \<and> snd (all_record W self (resp ! i)) = Inl e \<longrightarrow>
          snd (all_accounts_of W self buffer memcmp_opts data_size) = Inl e"
  proof (intro allI impI)
    fix i e
    assume a: "i < length resp
            \<and> (\<forall>j<i. \<exists>p. snd (all_record W self (resp ! j)) = Inr p)
            \<and> snd (all_record W self (resp ! i)) = Inl e"
    then have "snd (all_loop W self resp []) = Inl e"
      using all_loop_fail [of i resp W self e "[]"] by simp
    then show "snd (all_accounts_of W self buffer memcmp_opts data_size) = Inl e"
      by (simp add: unfold)
  qed
  show ?thesis
    using ok fail all_record_Inr [of W self] all_record_decode_fails [of _ _ _ W _ _ self]
    by blast
qed


theorem all_decodes_every_record_witness:
  "all_accounts_of test_world counter_client None None (Some 16) =
     ([GetProgramAccounts test_program_id ''base64'' ''finalized'' (Some 16)
         [\<lparr> memcmp_offset = 0, memcmp_bytes = ''jmVQbGxuVYt'' \<rparr>],
       AccountsDecode counter_bytes, AccountsDecode config_bytes],
      Inr [\<lparr> pa_public_key = replicate 32 5, pa_account = [(''count'', 42)] \<rparr>,
           \<lparr> pa_public_key = replicate 32 6, pa_account = [(''value'', 7)] \<rparr>])
   \<and> snd (all_accounts_of test_world counter_client None None None) =
       Inl (Foreign ''ConstructError'')"
proof -
  let ?good = "[\<lparr> ka_pubkey = ''CounterAddress'',
                   ka_account_data = [''/7AE9bz9fBkqAAAAAAAAAA=='', ''base64''] \<rparr>,
                 \<lparr> ka_pubkey = ''ConfigAddress'',
                   ka_account_data = [''mwyq4B76zIIHAAAAAAAAAA=='', ''base64''] \<rparr>]"
  let ?bad = "[\<lparr> ka_pubkey = ''CounterAddress'',
                  ka_account_data = [''/7AE9bz9fBkqAAAAAAAAAA=='', ''base64''] \<rparr>,
                \<lparr> ka_pubkey = ''ShortAddress'',
                  ka_account_data = [''AQID'', ''base64''] \<rparr>,
                \<lparr> ka_pubkey = ''ConfigAddress'',
                  ka_account_data = [''mwyq4B76zIIHAAAAAAAAAA=='', ''base64''] \<rparr>]"
  have r1: "all_record test_world counter_client
              \<lparr> ka_pubkey = ''CounterAddress'',
                ka_account_data = [''/7AE9bz9fBkqAAAAAAAAAA=='', ''base64''] \<rparr> =
            ([AccountsDecode counter_bytes],
             Inr \<lparr> pa_public_key = replicate 32 5, pa_account = [(''count'', 42)] \<rparr>)"
    by (simp add: all_record_eval fixture_defs)
  have r2: "all_record test_world counter_client
              \<lparr> ka_pubkey = ''ConfigAddress'',
                ka_account_data = [''mwyq4B76zIIHAAAAAAAAAA=='', ''base64''] \<rparr> =
            ([AccountsDecode config_bytes],
             Inr \<lparr> pa_public_key = replicate 32 6, pa_account = [(''value'', 7)] \<rparr>)"
    by (simp add: all_record_eval fixture_defs)
  have r3: "all_record test_world counter_client
              \<lparr> ka_pubkey = ''ShortAddress'', ka_account_data = [''AQID'', ''base64''] \<rparr> =
            ([AccountsDecode [1, 2, 3]], Inl (Foreign ''ConstructError''))"
    by (simp add: all_record_eval fixture_defs)
  have g: "get_program_accounts (connection (ac_provider counter_client))
             (ac_program_id counter_client) ''base64''
             (conn_commitment (connection (ac_provider counter_client))) (Some 16)
             (\<lparr> memcmp_offset = 0,
                 memcmp_bytes = b58encode_ascii test_world
                   (case None of
                      None \<Rightarrow> account_discriminator test_world
                                (td_name (ac_idl_account counter_client))
                    | Some b \<Rightarrow> account_discriminator test_world
                                  (td_name (ac_idl_account counter_client)) @ b) \<rparr>
              # (case None of None \<Rightarrow> [] | Some opts \<Rightarrow> opts)) = Inr ?good"
    by (simp add: test_connection_def test_provider_def counter_client_def)
  have b: "get_program_accounts (connection (ac_provider counter_client))
             (ac_program_id counter_client) ''base64''
             (conn_commitment (connection (ac_provider counter_client))) None
             (\<lparr> memcmp_offset = 0,
                 memcmp_bytes = b58encode_ascii test_world
                   (case None of
                      None \<Rightarrow> account_discriminator test_world
                                (td_name (ac_idl_account counter_client))
                    | Some b \<Rightarrow> account_discriminator test_world
                                  (td_name (ac_idl_account counter_client)) @ b) \<rparr>
              # (case None of None \<Rightarrow> [] | Some opts \<Rightarrow> opts)) = Inr ?bad"
    by (simp add: test_connection_def test_provider_def counter_client_def)
  have hd16: "fst (all_accounts_of test_world counter_client None None (Some 16)) =
      GetProgramAccounts test_program_id ''base64'' ''finalized'' (Some 16)
         [\<lparr> memcmp_offset = 0, memcmp_bytes = ''jmVQbGxuVYt'' \<rparr>]
      # tl (fst (all_accounts_of test_world counter_client None None (Some 16)))"
    by (simp add: all_accounts_of_def Let_def fst_bind_call fixture_defs)
  from all_decodes_every_record [OF g]
  have "snd (all_accounts_of test_world counter_client None None (Some 16)) =
          Inr (map (\<lambda>r. projr (snd (all_record test_world counter_client r))) ?good)
        \<and> tl (fst (all_accounts_of test_world counter_client None None (Some 16))) =
          concat (map (\<lambda>r. fst (all_record test_world counter_client r)) ?good)"
    by (simp add: r1 r2)
  then have ok: "all_accounts_of test_world counter_client None None (Some 16) =
     ([GetProgramAccounts test_program_id ''base64'' ''finalized'' (Some 16)
         [\<lparr> memcmp_offset = 0, memcmp_bytes = ''jmVQbGxuVYt'' \<rparr>],
       AccountsDecode counter_bytes, AccountsDecode config_bytes],
      Inr [\<lparr> pa_public_key = replicate 32 5, pa_account = [(''count'', 42)] \<rparr>,
           \<lparr> pa_public_key = replicate 32 6, pa_account = [(''value'', 7)] \<rparr>])"
    using hd16 by (simp add: r1 r2 prod_eq_iff)
  from all_decodes_every_record [OF b]
  have "\<forall>i e. i < length ?bad
            \<and> (\<forall>j<i. \<exists>p. snd (all_record test_world counter_client (?bad ! j)) = Inr p)
            \<and> snd (all_record test_world counter_client (?bad ! i)) = Inl e \<longrightarrow>
          snd (all_accounts_of test_world counter_client None None None) = Inl e"
    by blast
  from this [rule_format, of 1 "Foreign ''ConstructError''"]
  have bad: "snd (all_accounts_of test_world counter_client None None None) =
       Inl (Foreign ''ConstructError'')"
    by (simp add: r1 r3)
  show ?thesis using ok bad by simp
qed

section \<open>The loop of _build_namespace\<close>

lemma loop_keys_aligned:
  "map fst (ns_rpc ns) = map fst (ns_instruction ns) \<Longrightarrow>
   map fst (ns_transaction ns) = map fst (ns_instruction ns) \<Longrightarrow>
   map fst (ns_simulate ns) = map fst (ns_instruction ns) \<Longrightarrow>
     map fst (ns_rpc (build_namespace_loop idl coder pid prov errs k ixs ns)) =
       map fst (ns_instruction (build_namespace_loop idl coder pid prov errs k ixs ns))
     \<and> map fst (ns_transaction (build_namespace_loop idl coder pid prov errs k ixs ns)) =
       map fst (ns_instruction (build_namespace_loop idl coder pid prov errs k ixs ns))
     \<and> map fst (ns_simulate (build_namespace_loop idl coder pid prov errs k ixs ns)) =
       map fst (ns_instruction (build_namespace_loop idl coder pid prov errs k ixs ns))"
proof (induction ixs arbitrary: k ns)
  case Nil
  then show ?case by simp
next
  case (Cons ix ixs)
  show ?case
    unfolding build_namespace_loop.simps Let_def
    by (rule Cons.IH) (simp_all add: update_keys Cons.prems)
qed

lemma loop_key_set:
  "fst ` set (ns_instruction (build_namespace_loop idl coder pid prov errs k ixs ns)) =
     fst ` set (ns_instruction ns) \<union> ix_name ` set ixs"
proof (induction ixs arbitrary: k ns)
  case Nil
  then show ?case by simp
next
  case (Cons ix ixs)
  show ?case
    unfolding build_namespace_loop.simps Let_def
    by (simp add: Cons.IH dom_update)
qed

lemma loop_keys_distinct:
  "distinct (map fst (ns_instruction ns)) \<Longrightarrow>
     distinct (map fst (ns_instruction (build_namespace_loop idl coder pid prov errs k ixs ns)))"
proof (induction ixs arbitrary: k ns)
  case Nil
  then show ?case by simp
next
  case (Cons ix ixs)
  show ?case
    unfolding build_namespace_loop.simps Let_def
    by (rule Cons.IH) (simp add: distinct_update Cons.prems)
qed

lemma loop_untouched:
  "n \<notin> ix_name ` set ixs \<Longrightarrow>
     map_of (ns_instruction (build_namespace_loop idl coder pid prov errs k ixs ns)) n =
       map_of (ns_instruction ns) n"
proof (induction ixs arbitrary: k ns)
  case Nil
  then show ?case by simp
next
  case (Cons ix ixs)
  from Cons.prems have n: "n \<notin> ix_name ` set ixs" and ne: "ix_name ix \<noteq> n" by auto
  show ?case
    unfolding build_namespace_loop.simps Let_def
    using ne by (auto simp: Cons.IH [OF n] update_conv')
qed

lemma loop_last_wins:
  "i < length ixs \<Longrightarrow>
   \<forall>j. i < j \<and> j < length ixs \<longrightarrow> ix_name (ixs ! j) \<noteq> ix_name (ixs ! i) \<Longrightarrow>
     map_of (ns_instruction (build_namespace_loop idl coder pid prov errs k ixs ns))
       (ix_name (ixs ! i)) =
       Some (new_InstructionFn (k + i) (ixs ! i) (instruction_build coder) pid)"
proof (induction ixs arbitrary: k ns i)
  case Nil
  then show ?case by simp
next
  case (Cons ix ixs)
  show ?case
  proof (cases i)
    case 0
    have "ix_name ix \<notin> ix_name ` set ixs"
    proof
      assume "ix_name ix \<in> ix_name ` set ixs"
      then obtain j where j: "j < length ixs" and e: "ix_name (ixs ! j) = ix_name ix"
        by (auto simp: in_set_conv_nth)
      from Cons.prems(2) [rule_format, of "Suc j"] 0 j have "ix_name (ixs ! j) \<noteq> ix_name ix"
        by simp
      with e show False by simp
    qed
    then show ?thesis
      unfolding build_namespace_loop.simps Let_def
      using 0 by (simp add: loop_untouched update_conv')
  next
    case (Suc m)
    have m: "m < length ixs" using Cons.prems(1) Suc by simp
    have later: "\<forall>j. m < j \<and> j < length ixs \<longrightarrow> ix_name (ixs ! j) \<noteq> ix_name (ixs ! m)"
    proof (intro allI impI)
      fix j assume "m < j \<and> j < length ixs"
      with Cons.prems(2) [rule_format, of "Suc j"] Suc
      show "ix_name (ixs ! j) \<noteq> ix_name (ixs ! m)" by simp
    qed
    show ?thesis
      unfolding build_namespace_loop.simps Let_def
      using Suc by (simp add: Cons.IH [OF m later])
  qed
qed

lemma loop_handles_linked:
  "\<forall>n ix_item. map_of (ns_instruction ns) n = Some ix_item \<longrightarrow>
      ix_name (ifn_idl_ix ix_item) = n
      \<and> map_of (ns_transaction ns) n =
          Some (build_transaction_fn (ifn_idl_ix ix_item) ix_item)
      \<and> map_of (ns_rpc ns) n =
          Some (build_rpc_item (ifn_idl_ix ix_item)
                  (build_transaction_fn (ifn_idl_ix ix_item) ix_item) errs prov)
      \<and> map_of (ns_simulate ns) n =
          Some (build_simulate_item (ifn_idl_ix ix_item)
                  (build_transaction_fn (ifn_idl_ix ix_item) ix_item) errs prov coder pid idl)
   \<Longrightarrow>
   \<forall>n ix_item.
      map_of (ns_instruction (build_namespace_loop idl coder pid prov errs k ixs ns)) n
        = Some ix_item \<longrightarrow>
      ix_name (ifn_idl_ix ix_item) = n
      \<and> map_of (ns_transaction (build_namespace_loop idl coder pid prov errs k ixs ns)) n =
          Some (build_transaction_fn (ifn_idl_ix ix_item) ix_item)
      \<and> map_of (ns_rpc (build_namespace_loop idl coder pid prov errs k ixs ns)) n =
          Some (build_rpc_item (ifn_idl_ix ix_item)
                  (build_transaction_fn (ifn_idl_ix ix_item) ix_item) errs prov)
      \<and> map_of (ns_simulate (build_namespace_loop idl coder pid prov errs k ixs ns)) n =
          Some (build_simulate_item (ifn_idl_ix ix_item)
                  (build_transaction_fn (ifn_idl_ix ix_item) ix_item) errs prov coder pid idl)"
proof (induction ixs arbitrary: k ns)
  case Nil
  then show ?case by simp
next
  case (Cons ix ixs)
  show ?case
    unfolding build_namespace_loop.simps Let_def
  proof (rule Cons.IH, intro allI impI)
    fix n ix_item
    assume a: "map_of (ns_instruction
        \<lparr>ns_rpc = AList.update (ix_name ix)
             (build_rpc_item ix
               (build_transaction_fn ix
                 (new_InstructionFn k ix (instruction_build coder) pid)) errs prov)
             (ns_rpc ns),
         ns_instruction = AList.update (ix_name ix)
             (new_InstructionFn k ix (instruction_build coder) pid) (ns_instruction ns),
         ns_transaction = AList.update (ix_name ix)
             (build_transaction_fn ix
               (new_InstructionFn k ix (instruction_build coder) pid))
             (ns_transaction ns),
         ns_simulate = AList.update (ix_name ix)
             (build_simulate_item ix
               (build_transaction_fn ix
                 (new_InstructionFn k ix (instruction_build coder) pid))
               errs prov coder pid idl)
             (ns_simulate ns)\<rparr>) n = Some ix_item"
    show "ix_name (ifn_idl_ix ix_item) = n \<and>
       map_of (ns_transaction
        \<lparr>ns_rpc = AList.update (ix_name ix)
             (build_rpc_item ix
               (build_transaction_fn ix
                 (new_InstructionFn k ix (instruction_build coder) pid)) errs prov)
             (ns_rpc ns),
         ns_instruction = AList.update (ix_name ix)
             (new_InstructionFn k ix (instruction_build coder) pid) (ns_instruction ns),
         ns_transaction = AList.update (ix_name ix)
             (build_transaction_fn ix
               (new_InstructionFn k ix (instruction_build coder) pid))
             (ns_transaction ns),
         ns_simulate = AList.update (ix_name ix)
             (build_simulate_item ix
               (build_transaction_fn ix
                 (new_InstructionFn k ix (instruction_build coder) pid))
               errs prov coder pid idl)
             (ns_simulate ns)\<rparr>) n =
         Some (build_transaction_fn (ifn_idl_ix ix_item) ix_item) \<and>
       map_of (ns_rpc
        \<lparr>ns_rpc = AList.update (ix_name ix)
             (build_rpc_item ix
               (build_transaction_fn ix
                 (new_InstructionFn k ix (instruction_build coder) pid)) errs prov)
             (ns_rpc ns),
         ns_instruction = AList.update (ix_name ix)
             (new_InstructionFn k ix (instruction_build coder) pid) (ns_instruction ns),
         ns_transaction = AList.update (ix_name ix)
             (build_transaction_fn ix
               (new_InstructionFn k ix (instruction_build coder) pid))
             (ns_transaction ns),
         ns_simulate = AList.update (ix_name ix)
             (build_simulate_item ix
               (build_transaction_fn ix
                 (new_InstructionFn k ix (instruction_build coder) pid))
               errs prov coder pid idl)
             (ns_simulate ns)\<rparr>) n =
         Some (build_rpc_item (ifn_idl_ix ix_item)
                (build_transaction_fn (ifn_idl_ix ix_item) ix_item) errs prov) \<and>
       map_of (ns_simulate
        \<lparr>ns_rpc = AList.update (ix_name ix)
             (build_rpc_item ix
               (build_transaction_fn ix
                 (new_InstructionFn k ix (instruction_build coder) pid)) errs prov)
             (ns_rpc ns),
         ns_instruction = AList.update (ix_name ix)
             (new_InstructionFn k ix (instruction_build coder) pid) (ns_instruction ns),
         ns_transaction = AList.update (ix_name ix)
             (build_transaction_fn ix
               (new_InstructionFn k ix (instruction_build coder) pid))
             (ns_transaction ns),
         ns_simulate = AList.update (ix_name ix)
             (build_simulate_item ix
               (build_transaction_fn ix
                 (new_InstructionFn k ix (instruction_build coder) pid))
               errs prov coder pid idl)
             (ns_simulate ns)\<rparr>) n =
         Some (build_simulate_item (ifn_idl_ix ix_item)
                (build_transaction_fn (ifn_idl_ix ix_item) ix_item) errs prov coder pid idl)"
    proof (cases "n = ix_name ix")
      case True
      with a have "ix_item = new_InstructionFn k ix (instruction_build coder) pid"
        by (simp add: update_conv')
      then show ?thesis
        using True by (simp add: update_conv' new_InstructionFn_def)
    next
      case False
      with a have "map_of (ns_instruction ns) n = Some ix_item"
        by (simp add: update_conv')
      with Cons.prems show ?thesis
        using False by (simp add: update_conv')
    qed
  qed
qed

section \<open>_build_namespace\<close>

lemma build_namespace_Inr:
  assumes "build_namespace W idl coder pid prov = Inr N"
  shows "nsp_rpc N = ns_rpc (build_namespace_loop idl coder pid prov (parse_idl_errors idl) 0
            (Idl_instructions idl)
            \<lparr> ns_rpc = [], ns_instruction = [], ns_transaction = [], ns_simulate = [] \<rparr>)
     \<and> nsp_instruction N = ns_instruction (build_namespace_loop idl coder pid prov
            (parse_idl_errors idl) 0 (Idl_instructions idl)
            \<lparr> ns_rpc = [], ns_instruction = [], ns_transaction = [], ns_simulate = [] \<rparr>)
     \<and> nsp_transaction N = ns_transaction (build_namespace_loop idl coder pid prov
            (parse_idl_errors idl) 0 (Idl_instructions idl)
            \<lparr> ns_rpc = [], ns_instruction = [], ns_transaction = [], ns_simulate = [] \<rparr>)
     \<and> nsp_simulate N = ns_simulate (build_namespace_loop idl coder pid prov
            (parse_idl_errors idl) 0 (Idl_instructions idl)
            \<lparr> ns_rpc = [], ns_instruction = [], ns_transaction = [], ns_simulate = [] \<rparr>)
     \<and> (if Idl_accounts idl \<noteq> [] then build_account W idl coder pid prov else Inr [])
           = Inr (nsp_account N)
     \<and> build_types W idl = Inr (nsp_types N)"
proof (cases "if Idl_accounts idl \<noteq> [] then build_account W idl coder pid prov else Inr []")
  case (Inl e)
  with assms show ?thesis
    by (simp add: build_namespace_def Let_def del: if_split cong: if_cong)
next
  case acc: (Inr a)
  show ?thesis
  proof (cases "build_types W idl")
    case (Inl x)
    with assms acc show ?thesis
      by (simp add: build_namespace_def Let_def)
  next
    case (Inr t)
    with assms acc show ?thesis
      by (auto simp: build_namespace_def Let_def)
  qed
qed

lemma test_namespace_built:
  "\<exists>N. build_namespace test_world test_idl test_coder test_program_id test_provider = Inr N"
  by (simp add: build_namespace_def build_account_def AccountClient_init_def Let_def
      test_world_def test_idl_def)

text \<open>
  C7. When \<^verbatim>\<open>_build_namespace\<close> returns, the keys of the instruction namespace are exactly
  the declared instruction names, as declared; the transaction, rpc and simulate namespaces
  have the same keys in the same order; and under every name the transaction handle is
  built from the very instruction builder registered under that name, and the rpc and
  simulate handles are built from that transaction handle.
\<close>

theorem build_namespace_aligned:
  assumes "build_namespace W idl coder program_id provider = Inr N"
  shows "set (map fst (nsp_instruction N)) = set (map ix_name (Idl_instructions idl))
     \<and> map fst (nsp_transaction N) = map fst (nsp_instruction N)
     \<and> map fst (nsp_rpc N) = map fst (nsp_instruction N)
     \<and> map fst (nsp_simulate N) = map fst (nsp_instruction N)
     \<and> (\<forall>n ix_item. map_of (nsp_instruction N) n = Some ix_item \<longrightarrow>
          ix_name (ifn_idl_ix ix_item) = n
          \<and> map_of (nsp_transaction N) n =
              Some (build_transaction_fn (ifn_idl_ix ix_item) ix_item)
          \<and> map_of (nsp_rpc N) n =
              Some (build_rpc_item (ifn_idl_ix ix_item)
                      (build_transaction_fn (ifn_idl_ix ix_item) ix_item)
                      (parse_idl_errors idl) provider)
          \<and> map_of (nsp_simulate N) n =
              Some (build_simulate_item (ifn_idl_ix ix_item)
                      (build_transaction_fn (ifn_idl_ix ix_item) ix_item)
                      (parse_idl_errors idl) provider coder program_id idl))"
proof -
  note N = build_namespace_Inr [OF assms]
  let ?e = "\<lparr> ns_rpc = [], ns_instruction = [], ns_transaction = [], ns_simulate = [] \<rparr>
              :: ('a, 'b) IxNamespaces"
  have keys: "set (map fst (nsp_instruction N)) = set (map ix_name (Idl_instructions idl))"
    using loop_key_set [of idl coder program_id provider "parse_idl_errors idl" 0
        "Idl_instructions idl" ?e]
    by (simp add: N)
  have aligned: "map fst (nsp_transaction N) = map fst (nsp_instruction N)
     \<and> map fst (nsp_rpc N) = map fst (nsp_instruction N)
     \<and> map fst (nsp_simulate N) = map fst (nsp_instruction N)"
    using loop_keys_aligned [of ?e idl coder program_id provider "parse_idl_errors idl" 0
        "Idl_instructions idl"]
    by (simp add: N)
  have linked: "\<forall>n ix_item. map_of (nsp_instruction N) n = Some ix_item \<longrightarrow>
          ix_name (ifn_idl_ix ix_item) = n
          \<and> map_of (nsp_transaction N) n =
              Some (build_transaction_fn (ifn_idl_ix ix_item) ix_item)
          \<and> map_of (nsp_rpc N) n =
              Some (build_rpc_item (ifn_idl_ix ix_item)
                      (build_transaction_fn (ifn_idl_ix ix_item) ix_item)
                      (parse_idl_errors idl) provider)
          \<and> map_of (nsp_simulate N) n =
              Some (build_simulate_item (ifn_idl_ix ix_item)
                      (build_transaction_fn (ifn_idl_ix ix_item) ix_item)
                      (parse_idl_errors idl) provider coder program_id idl)"
    using loop_handles_linked [of ?e "parse_idl_errors idl" provider coder program_id idl 0
        "Idl_instructions idl"]
    by (simp add: N)
  show ?thesis using keys aligned linked by blast
qed

theorem build_namespace_aligned_witness:
  "\<exists>N. build_namespace test_world test_idl test_coder test_program_id test_provider = Inr N
     \<and> set (map fst (nsp_instruction N)) = {''initialize'', ''increment''}
     \<and> map fst (nsp_transaction N) = map fst (nsp_instruction N)
     \<and> map fst (nsp_rpc N) = map fst (nsp_instruction N)
     \<and> map fst (nsp_simulate N) = map fst (nsp_instruction N)"
proof -
  obtain N where N: "build_namespace test_world test_idl test_coder test_program_id
      test_provider = Inr N"
    using test_namespace_built by blast
  have names: "set (map ix_name (Idl_instructions test_idl)) = {''initialize'', ''increment''}"
    by (auto simp: test_idl_def initialize_ix_def increment_ix_def initialize_again_ix_def)
  from build_namespace_aligned [OF N] names
  have "set (map fst (nsp_instruction N)) = {''initialize'', ''increment''}
     \<and> map fst (nsp_transaction N) = map fst (nsp_instruction N)
     \<and> map fst (nsp_rpc N) = map fst (nsp_instruction N)
     \<and> map fst (nsp_simulate N) = map fst (nsp_instruction N)"
    by simp
  with N show ?thesis by blast
qed



text \<open>
  C9. Let definition \<open>i\<close> of the instruction list be the last one with its name. Then all
  four namespaces hold under that name the handles built from definition \<open>i\<close> (the
  instruction builder made in iteration \<open>i\<close>), whatever earlier definitions of the same
  name registered; and each namespace has distinct keys and as many entries as there are
  distinct declared names.
\<close>

theorem build_namespace_later_definition_wins:
  assumes "build_namespace W idl coder program_id provider = Inr N"
    and "i < length (Idl_instructions idl)"
    and "\<forall>j. i < j \<and> j < length (Idl_instructions idl) \<longrightarrow>
           ix_name (Idl_instructions idl ! j) \<noteq> ix_name (Idl_instructions idl ! i)"
  shows "map_of (nsp_instruction N) (ix_name (Idl_instructions idl ! i)) =
           Some (new_InstructionFn i (Idl_instructions idl ! i) (instruction_build coder)
                   program_id)
     \<and> map_of (nsp_transaction N) (ix_name (Idl_instructions idl ! i)) =
           Some (build_transaction_fn (Idl_instructions idl ! i)
                   (new_InstructionFn i (Idl_instructions idl ! i) (instruction_build coder)
                      program_id))
     \<and> map_of (nsp_rpc N) (ix_name (Idl_instructions idl ! i)) =
           Some (build_rpc_item (Idl_instructions idl ! i)
                   (build_transaction_fn (Idl_instructions idl ! i)
                      (new_InstructionFn i (Idl_instructions idl ! i) (instruction_build coder)
                         program_id))
                   (parse_idl_errors idl) provider)
     \<and> map_of (nsp_simulate N) (ix_name (Idl_instructions idl ! i)) =
           Some (build_simulate_item (Idl_instructions idl ! i)
                   (build_transaction_fn (Idl_instructions idl ! i)
                      (new_InstructionFn i (Idl_instructions idl ! i) (instruction_build coder)
                         program_id))
                   (parse_idl_errors idl) provider coder program_id idl)
     \<and> distinct (map fst (nsp_instruction N))
     \<and> distinct (map fst (nsp_transaction N))
     \<and> distinct (map fst (nsp_rpc N))
     \<and> distinct (map fst (nsp_simulate N))
     \<and> length (nsp_instruction N) = card (ix_name ` set (Idl_instructions idl))
     \<and> length (nsp_transaction N) = card (ix_name ` set (Idl_instructions idl))
     \<and> length (nsp_rpc N) = card (ix_name ` set (Idl_instructions idl))
     \<and> length (nsp_simulate N) = card (ix_name ` set (Idl_instructions idl))"
proof -
  note N = build_namespace_Inr [OF assms(1)]
  let ?e = "\<lparr> ns_rpc = [], ns_instruction = [], ns_transaction = [], ns_simulate = [] \<rparr>
              :: ('a, 'b) IxNamespaces"
  let ?item = "new_InstructionFn i (Idl_instructions idl ! i) (instruction_build coder)
                 program_id"
  have ix: "map_of (nsp_instruction N) (ix_name (Idl_instructions idl ! i)) = Some ?item"
    using loop_last_wins [OF assms(2) assms(3), of idl coder program_id provider
        "parse_idl_errors idl" 0 ?e]
    by (simp add: N)
  have idl_ix: "ifn_idl_ix ?item = Idl_instructions idl ! i"
    by (simp add: new_InstructionFn_def)
  have linked: "map_of (nsp_transaction N) (ix_name (Idl_instructions idl ! i)) =
           Some (build_transaction_fn (Idl_instructions idl ! i) ?item)
     \<and> map_of (nsp_rpc N) (ix_name (Idl_instructions idl ! i)) =
           Some (build_rpc_item (Idl_instructions idl ! i)
                   (build_transaction_fn (Idl_instructions idl ! i) ?item)
                   (parse_idl_errors idl) provider)
     \<and> map_of (nsp_simulate N) (ix_name (Idl_instructions idl ! i)) =
           Some (build_simulate_item (Idl_instructions idl ! i)
                   (build_transaction_fn (Idl_instructions idl ! i) ?item)
                   (parse_idl_errors idl) provider coder program_id idl)"
    using loop_handles_linked [of ?e "parse_idl_errors idl" provider coder program_id idl 0
        "Idl_instructions idl", rule_format, of "ix_name (Idl_instructions idl ! i)" ?item]
      ix idl_ix
    by (simp add: N)
  have d: "distinct (map fst (nsp_instruction N))"
    using loop_keys_distinct [of ?e idl coder program_id provider "parse_idl_errors idl" 0
        "Idl_instructions idl"]
    by (simp add: N)
  have aligned: "map fst (nsp_transaction N) = map fst (nsp_instruction N)
     \<and> map fst (nsp_rpc N) = map fst (nsp_instruction N)
     \<and> map fst (nsp_simulate N) = map fst (nsp_instruction N)"
    using loop_keys_aligned [of ?e idl coder program_id provider "parse_idl_errors idl" 0
        "Idl_instructions idl"]
    by (simp add: N)
  have keys: "set (map fst (nsp_instruction N)) = ix_name ` set (Idl_instructions idl)"
    using loop_key_set [of idl coder program_id provider "parse_idl_errors idl" 0
        "Idl_instructions idl" ?e]
    by (simp add: N)
  have len: "length (map fst (nsp_instruction N)) = card (ix_name ` set (Idl_instructions idl))"
    using distinct_card [OF d] keys by simp
  have lens: "length (nsp_instruction N) = card (ix_name ` set (Idl_instructions idl))
     \<and> length (nsp_transaction N) = card (ix_name ` set (Idl_instructions idl))
     \<and> length (nsp_rpc N) = card (ix_name ` set (Idl_instructions idl))
     \<and> length (nsp_simulate N) = card (ix_name ` set (Idl_instructions idl))"
    using len aligned by (metis length_map)
  show ?thesis
    using ix linked d aligned lens by simp
qed


theorem build_namespace_later_definition_wins_witness:
  "\<exists>N. build_namespace test_world test_idl test_coder test_program_id test_provider = Inr N
     \<and> map_of (nsp_instruction N) ''initialize'' =
         Some \<lparr> ifn_ref = 2, ifn_idl_ix = initialize_again_ix,
                ifn_encode_fn = ''coder.instruction.build'',
                ifn_program_id = test_program_id \<rparr>
     \<and> map_of (nsp_transaction N) ''initialize'' =
         Some \<lparr> tfn_idl_ix = initialize_again_ix,
                tfn_ix_fn = \<lparr> ifn_ref = 2, ifn_idl_ix = initialize_again_ix,
                              ifn_encode_fn = ''coder.instruction.build'',
                              ifn_program_id = test_program_id \<rparr> \<rparr>
     \<and> length (nsp_instruction N) = 2 \<and> length (nsp_transaction N) = 2
     \<and> length (nsp_rpc N) = 2 \<and> length (nsp_simulate N) = 2"
proof -
  obtain N where N: "build_namespace test_world test_idl test_coder test_program_id
      test_provider = Inr N"
    using test_namespace_built by blast
  have i: "2 < length (Idl_instructions test_idl)"
    by (simp add: test_idl_def)
  have last: "\<forall>j. 2 < j \<and> j < length (Idl_instructions test_idl) \<longrightarrow>
      ix_name (Idl_instructions test_idl ! j) \<noteq> ix_name (Idl_instructions test_idl ! 2)"
  proof (intro allI impI)
    fix j :: nat
    assume "2 < j \<and> j < length (Idl_instructions test_idl)"
    moreover have "length (Idl_instructions test_idl) = 3" by (simp add: test_idl_def)
    ultimately have False by arith
    then show "ix_name (Idl_instructions test_idl ! j)
        \<noteq> ix_name (Idl_instructions test_idl ! 2)" ..
  qed
  have at: "Idl_instructions test_idl ! 2 = initialize_again_ix"
    by (simp add: test_idl_def)
  have name: "ix_name initialize_again_ix = ''initialize''"
    by (simp add: initialize_again_ix_def)
  have "ix_name ` set (Idl_instructions test_idl) = {''initialize'', ''increment''}"
    by (auto simp: test_idl_def initialize_ix_def increment_ix_def initialize_again_ix_def)
  then have card: "card (ix_name ` set (Idl_instructions test_idl)) = 2"
    by simp
  from build_namespace_later_definition_wins [OF N i last]
  have "map_of (nsp_instruction N) ''initialize'' =
         Some \<lparr> ifn_ref = 2, ifn_idl_ix = initialize_again_ix,
                ifn_encode_fn = ''coder.instruction.build'',
                ifn_program_id = test_program_id \<rparr>
     \<and> map_of (nsp_transaction N) ''initialize'' =
         Some \<lparr> tfn_idl_ix = initialize_again_ix,
                tfn_ix_fn = \<lparr> ifn_ref = 2, ifn_idl_ix = initialize_again_ix,
                              ifn_encode_fn = ''coder.instruction.build'',
                              ifn_program_id = test_program_id \<rparr> \<rparr>
     \<and> length (nsp_instruction N) = 2 \<and> length (nsp_transaction N) = 2
     \<and> length (nsp_rpc N) = 2 \<and> length (nsp_simulate N) = 2"
    by (simp add: at name card new_InstructionFn_def build_transaction_fn_def test_coder_def)
  with N show ?thesis by blast
qed

section \<open>Program.fetch_idl\<close>

lemma fetch_idl_eval:
  "fetch_idl W address provider =
     (case translate_address W address of
        Inl x \<Rightarrow> ([], Inl (Foreign x))
      | Inr program_id \<Rightarrow>
     (case (case provider of Some p \<Rightarrow> Inr p | None \<Rightarrow> Provider_local W) of
        Inl x \<Rightarrow> ([], Inl (Foreign x))
      | Inr actual_provider \<Rightarrow>
     (case idl_address W program_id of
        Inl x \<Rightarrow> ([], Inl (Foreign x))
      | Inr idl_addr \<Rightarrow>
     (case get_account_info (connection actual_provider) (AddrKey idl_addr) None of
        Inl x \<Rightarrow> ([GetAccountInfo (AddrKey idl_addr) None], Inl (Foreign x))
      | Inr None \<Rightarrow> ([GetAccountInfo (AddrKey idl_addr) None], Inl IdlNotFoundError)
      | Inr (Some v) \<Rightarrow>
     (case aiv_data v of
        [] \<Rightarrow> ([GetAccountInfo (AddrKey idl_addr) None], Inl IndexError)
      | data0 # rest \<Rightarrow>
     (case b64decode W data0 of
        Inl x \<Rightarrow> ([GetAccountInfo (AddrKey idl_addr) None], Inl (Foreign x))
      | Inr decoded \<Rightarrow>
     (case decode_idl_account W (drop 8 decoded) of
        Inl x \<Rightarrow> ([GetAccountInfo (AddrKey idl_addr) None], Inl (Foreign x))
      | Inr idl_account \<Rightarrow>
          ([GetAccountInfo (AddrKey idl_addr) None,
            ZlibDecompressobj 15 (idl_account_data idl_account)],
           case zlib_decompressobj W 15 (idl_account_data idl_account) of
             Inl x \<Rightarrow> Inl (Foreign x)
           | Inr inflated \<Rightarrow>
          (case utf8_decode W inflated of
             Inl x \<Rightarrow> Inl (Foreign x)
           | Inr inflated_idl \<Rightarrow>
          (case json_loads W inflated_idl of
             Inl x \<Rightarrow> Inl (Foreign x)
           | Inr parsed \<Rightarrow> foreign (Idl_from_json W parsed)))))))))))"
  by (simp add: fetch_idl_def pako_inflate_def lib_def call_def ret_def raise_def
      subscript0_def ACCOUNT_DISCRIMINATOR_SIZE_def
      split: sum.splits option.splits list.splits)


text \<open>
  C4, as the spec states it, fails on how the payload is decompressed. The code does not
  inflate what is left after the 8-byte prefix: it first decodes that remainder with
  \<^verbatim>\<open>decode_idl_account\<close> and inflates the \<^verbatim>\<open>data\<close> field of the result. And it inflates with
  \<^verbatim>\<open>zlib.decompressobj(15)\<close>: in Python's \<^verbatim>\<open>zlib\<close> a window argument of +15 reads a stream
  with the zlib header and trailer, and a raw deflate stream without header is asked for
  with -15. Here the published account holds an authority, a length and the zlib stream of
  \<^verbatim>\<open>{}\<close>: the one decompression the code asks for has window argument 15 and the stream
  alone as input, not the remainder of the payload and not window argument -15.
\<close>

theorem fetch_idl_counterexample:
  "b64decode test_world
      ''Cmnpp3i89EAHBwcHBwcHBwcHBwcHBwcHBwcHBwcHBwcHBwcHBwcHBwoAAAB4nKuuBQABdQD5''
     = Inr idl_account_bytes
   \<and> fetch_idl test_world (AddrKey test_program_id) (Some test_provider) =
       ([GetAccountInfo (AddrKey test_idl_address) None,
         ZlibDecompressobj 15 idl_zlib_stream],
        Inr \<lparr> Idl_instructions = [], Idl_accounts = [], Idl_types = [], Idl_errors = [] \<rparr>)
   \<and> idl_zlib_stream \<noteq> drop 8 idl_account_bytes
   \<and> ZlibDecompressobj (- 15) (drop 8 idl_account_bytes)
       \<notin> set (fst (fetch_idl test_world (AddrKey test_program_id) (Some test_provider)))"
proof -
  have run: "fetch_idl test_world (AddrKey test_program_id) (Some test_provider) =
       ([GetAccountInfo (AddrKey test_idl_address) None,
         ZlibDecompressobj 15 idl_zlib_stream],
        Inr \<lparr> Idl_instructions = [], Idl_accounts = [], Idl_types = [], Idl_errors = [] \<rparr>)"
    by (simp add: fetch_idl_eval test_world_def test_connection_def test_provider_def
        idl_account_bytes_def)
  have differ: "idl_zlib_stream \<noteq> drop 8 idl_account_bytes"
    by (simp add: idl_account_bytes_def idl_zlib_stream_def)
  show ?thesis
    using differ by (simp add: run) (simp add: test_world_def)
qed

text \<open>
  C4, amended. \<open>fetch_idl\<close> raises \<open>IdlNotFoundError\<close> if and only if the address, the
  provider and the derived schema address are obtained and the transport reports no data at
  that address. When the transport reports data, the code strips the 8-byte prefix from the
  base-64-decoded payload, decodes the remainder as the schema account, and inflates that
  account's data field with \<^verbatim>\<open>zlib.decompressobj(15)\<close> (a zlib stream with header, window
  size 15); the result is decoded as text, parsed as JSON and turned into the schema.
\<close>

theorem fetch_idl_steps:
  "(snd (fetch_idl W address provider) = Inl IdlNotFoundError \<longleftrightarrow>
      (\<exists>program_id actual_provider idl_addr.
         translate_address W address = Inr program_id
         \<and> (case provider of Some p \<Rightarrow> Inr p | None \<Rightarrow> Provider_local W) = Inr actual_provider
         \<and> idl_address W program_id = Inr idl_addr
         \<and> get_account_info (connection actual_provider) (AddrKey idl_addr) None = Inr None))
   \<and> (\<forall>program_id actual_provider idl_addr v data0 rest decoded idl_account.
         translate_address W address = Inr program_id
         \<and> (case provider of Some p \<Rightarrow> Inr p | None \<Rightarrow> Provider_local W) = Inr actual_provider
         \<and> idl_address W program_id = Inr idl_addr
         \<and> get_account_info (connection actual_provider) (AddrKey idl_addr) None
             = Inr (Some v)
         \<and> aiv_data v = data0 # rest
         \<and> b64decode W data0 = Inr decoded
         \<and> decode_idl_account W (drop 8 decoded) = Inr idl_account \<longrightarrow>
         fetch_idl W address provider =
           ([GetAccountInfo (AddrKey idl_addr) None,
             ZlibDecompressobj 15 (idl_account_data idl_account)],
            case zlib_decompressobj W 15 (idl_account_data idl_account) of
              Inl x \<Rightarrow> Inl (Foreign x)
            | Inr inflated \<Rightarrow>
                (case utf8_decode W inflated of
                   Inl x \<Rightarrow> Inl (Foreign x)
                 | Inr inflated_idl \<Rightarrow>
                     (case json_loads W inflated_idl of
                        Inl x \<Rightarrow> Inl (Foreign x)
                      | Inr parsed \<Rightarrow> foreign (Idl_from_json W parsed)))))"
proof (intro conjI)
  show "snd (fetch_idl W address provider) = Inl IdlNotFoundError \<longleftrightarrow>
      (\<exists>program_id actual_provider idl_addr.
         translate_address W address = Inr program_id
         \<and> (case provider of Some p \<Rightarrow> Inr p | None \<Rightarrow> Provider_local W) = Inr actual_provider
         \<and> idl_address W program_id = Inr idl_addr
         \<and> get_account_info (connection actual_provider) (AddrKey idl_addr) None = Inr None)"
    unfolding fetch_idl_eval
    by (auto simp: foreign_def split: sum.splits option.splits list.splits)
next
  show "\<forall>program_id actual_provider idl_addr v data0 rest decoded idl_account.
         translate_address W address = Inr program_id
         \<and> (case provider of Some p \<Rightarrow> Inr p | None \<Rightarrow> Provider_local W) = Inr actual_provider
         \<and> idl_address W program_id = Inr idl_addr
         \<and> get_account_info (connection actual_provider) (AddrKey idl_addr) None
             = Inr (Some v)
         \<and> aiv_data v = data0 # rest
         \<and> b64decode W data0 = Inr decoded
         \<and> decode_idl_account W (drop 8 decoded) = Inr idl_account \<longrightarrow>
         fetch_idl W address provider =
           ([GetAccountInfo (AddrKey idl_addr) None,
             ZlibDecompressobj 15 (idl_account_data idl_account)],
            case zlib_decompressobj W 15 (idl_account_data idl_account) of
              Inl x \<Rightarrow> Inl (Foreign x)
            | Inr inflated \<Rightarrow>
                (case utf8_decode W inflated of
                   Inl x \<Rightarrow> Inl (Foreign x)
                 | Inr inflated_idl \<Rightarrow>
                     (case json_loads W inflated_idl of
                        Inl x \<Rightarrow> Inl (Foreign x)
                      | Inr parsed \<Rightarrow> foreign (Idl_from_json W parsed))))"
    unfolding fetch_idl_eval by (intro allI impI) (elim conjE, simp)
qed

theorem fetch_idl_steps_witness:
  "snd (fetch_idl test_world (AddrKey (replicate 32 9)) (Some local_provider))
     = Inl IdlNotFoundError
   \<and> fetch_idl test_world (AddrKey test_program_id) None =
       ([GetAccountInfo (AddrKey test_idl_address) None,
         ZlibDecompressobj 15 idl_zlib_stream],
        Inr \<lparr> Idl_instructions = [], Idl_accounts = [], Idl_types = [], Idl_errors = [] \<rparr>)"
proof -
  have a: "translate_address test_world (AddrKey test_program_id) = Inr test_program_id"
    by (simp add: test_world_def)
  have b: "(case None of Some p \<Rightarrow> Inr p | None \<Rightarrow> Provider_local test_world)
      = Inr local_provider"
    by (simp add: test_world_def)
  have c: "idl_address test_world test_program_id = Inr test_idl_address"
    by (simp add: test_world_def)
  have d: "get_account_info (connection local_provider) (AddrKey test_idl_address) None =
      Inr (Some \<lparr> aiv_data =
        [''Cmnpp3i89EAHBwcHBwcHBwcHBwcHBwcHBwcHBwcHBwcHBwcHBwcHBwoAAAB4nKuuBQABdQD5'',
         ''base64''] \<rparr>)"
    by (simp add: local_provider_def test_connection_def)
  have e: "b64decode test_world
      ''Cmnpp3i89EAHBwcHBwcHBwcHBwcHBwcHBwcHBwcHBwcHBwcHBwcHBwoAAAB4nKuuBQABdQD5''
     = Inr idl_account_bytes"
    by (simp add: test_world_def)
  have f: "decode_idl_account test_world (drop 8 idl_account_bytes) =
      Inr \<lparr> idl_account_data = idl_zlib_stream \<rparr>"
    by (simp add: test_world_def idl_account_bytes_def)
  have absent: "\<exists>program_id actual_provider idl_addr.
         translate_address test_world (AddrKey (replicate 32 9)) = Inr program_id
         \<and> (case Some local_provider of Some p \<Rightarrow> Inr p
             | None \<Rightarrow> Provider_local test_world) = Inr actual_provider
         \<and> idl_address test_world program_id = Inr idl_addr
         \<and> get_account_info (connection actual_provider) (AddrKey idl_addr) None = Inr None"
    by (simp add: test_world_def local_provider_def test_connection_def test_program_id_def
        test_idl_address_def)
  from fetch_idl_steps [of test_world "AddrKey (replicate 32 9)" "Some local_provider"] absent
  have one: "snd (fetch_idl test_world (AddrKey (replicate 32 9)) (Some local_provider))
     = Inl IdlNotFoundError"
    by blast
  from fetch_idl_steps [of test_world "AddrKey test_program_id" None]
  have "translate_address test_world (AddrKey test_program_id) = Inr test_program_id
         \<and> (case None of Some p \<Rightarrow> Inr p | None \<Rightarrow> Provider_local test_world)
             = Inr local_provider
         \<and> idl_address test_world test_program_id = Inr test_idl_address
         \<and> get_account_info (connection local_provider) (AddrKey test_idl_address) None
             = Inr (Some \<lparr> aiv_data =
        [''Cmnpp3i89EAHBwcHBwcHBwcHBwcHBwcHBwcHBwcHBwcHBwcHBwcHBwoAAAB4nKuuBQABdQD5'',
         ''base64''] \<rparr>)
         \<and> aiv_data \<lparr> aiv_data =
        [''Cmnpp3i89EAHBwcHBwcHBwcHBwcHBwcHBwcHBwcHBwcHBwcHBwcHBwoAAAB4nKuuBQABdQD5'',
         ''base64''] \<rparr> =
        ''Cmnpp3i89EAHBwcHBwcHBwcHBwcHBwcHBwcHBwcHBwcHBwcHBwcHBwoAAAB4nKuuBQABdQD5''
          # [''base64'']
         \<and> b64decode test_world
      ''Cmnpp3i89EAHBwcHBwcHBwcHBwcHBwcHBwcHBwcHBwcHBwcHBwcHBwoAAAB4nKuuBQABdQD5''
            = Inr idl_account_bytes
         \<and> decode_idl_account test_world (drop 8 idl_account_bytes)
            = Inr \<lparr> idl_account_data = idl_zlib_stream \<rparr> \<longrightarrow>
         fetch_idl test_world (AddrKey test_program_id) None =
           ([GetAccountInfo (AddrKey test_idl_address) None,
             ZlibDecompressobj 15 (idl_account_data \<lparr> idl_account_data = idl_zlib_stream \<rparr>)],
            case zlib_decompressobj test_world 15
                   (idl_account_data \<lparr> idl_account_data = idl_zlib_stream \<rparr>) of
              Inl x \<Rightarrow> Inl (Foreign x)
            | Inr inflated \<Rightarrow>
                (case utf8_decode test_world inflated of
                   Inl x \<Rightarrow> Inl (Foreign x)
                 | Inr inflated_idl \<Rightarrow>
                     (case json_loads test_world inflated_idl of
                        Inl x \<Rightarrow> Inl (Foreign x)
                      | Inr parsed \<Rightarrow> foreign (Idl_from_json test_world parsed))))"
    by blast
  with a b c d e f
  have two: "fetch_idl test_world (AddrKey test_program_id) None =
           ([GetAccountInfo (AddrKey test_idl_address) None,
             ZlibDecompressobj 15 idl_zlib_stream],
            case zlib_decompressobj test_world 15 idl_zlib_stream of
              Inl x \<Rightarrow> Inl (Foreign x)
            | Inr inflated \<Rightarrow>
                (case utf8_decode test_world inflated of
                   Inl x \<Rightarrow> Inl (Foreign x)
                 | Inr inflated_idl \<Rightarrow>
                     (case json_loads test_world inflated_idl of
                        Inl x \<Rightarrow> Inl (Foreign x)
                      | Inr parsed \<Rightarrow> foreign (Idl_from_json test_world parsed))))"
    by simp
  have "fetch_idl test_world (AddrKey test_program_id) None =
       ([GetAccountInfo (AddrKey test_idl_address) None,
         ZlibDecompressobj 15 idl_zlib_stream],
        Inr \<lparr> Idl_instructions = [], Idl_accounts = [], Idl_types = [], Idl_errors = [] \<rparr>)"
    by (simp add: two) (simp add: test_world_def)
  with one show ?thesis by simp
qed

section \<open>Program.__init__\<close>

lemma loop_providers:
  "\<forall>n r. map_of (ns_rpc ns) n = Some r \<longrightarrow> rfn_provider r = prov \<Longrightarrow>
   \<forall>n s. map_of (ns_simulate ns) n = Some s \<longrightarrow> sfn_provider s = prov \<Longrightarrow>
     (\<forall>n r. map_of (ns_rpc (build_namespace_loop idl coder pid prov errs k ixs ns)) n = Some r
        \<longrightarrow> rfn_provider r = prov)
     \<and> (\<forall>n s. map_of (ns_simulate (build_namespace_loop idl coder pid prov errs k ixs ns)) n
           = Some s \<longrightarrow> sfn_provider s = prov)"
proof (induction ixs arbitrary: k ns)
  case Nil
  then show ?case by simp
next
  case (Cons ix ixs)
  show ?case
    unfolding build_namespace_loop.simps Let_def
    by (rule Cons.IH)
       (use Cons.prems in
         \<open>auto simp: update_conv' build_rpc_item_def build_simulate_item_def
            split: if_splits\<close>)
qed

lemma AccountClient_init_provider:
  "AccountClient_init W idl idl_account coder pid prov = Inr c \<Longrightarrow> ac_provider c = prov"
  by (cases "account_size W idl idl_account") (auto simp: AccountClient_init_def)

lemma build_account_loop_provider:
  "build_account_loop W idl coder pid prov accts fns = Inr res \<Longrightarrow>
   \<forall>n c. map_of fns n = Some c \<longrightarrow> ac_provider c = prov \<Longrightarrow>
     \<forall>n c. map_of res n = Some c \<longrightarrow> ac_provider c = prov"
proof (induction accts arbitrary: fns)
  case Nil
  then show ?case by simp
next
  case (Cons a accts)
  show ?case
  proof (cases "AccountClient_init W idl a coder pid prov")
    case (Inl e)
    with Cons.prems(1) show ?thesis by simp
  next
    case (Inr c)
    with Cons.prems(1) have run: "build_account_loop W idl coder pid prov accts
        (AList.update (td_name a) c fns) = Inr res"
      by simp
    have "\<forall>n c'. map_of (AList.update (td_name a) c fns) n = Some c'
        \<longrightarrow> ac_provider c' = prov"
      using Cons.prems(2) AccountClient_init_provider [OF Inr]
      by (auto simp: update_conv' split: if_splits)
    from Cons.IH [OF run this] show ?thesis .
  qed
qed

lemma Program_init_Inr:
  assumes "Program_init W idl pid provider = Inr P"
  shows "\<exists>N. (case provider of Some p \<Rightarrow> Inr p | None \<Rightarrow> Provider_local W)
             = Inr (prog_provider P)
     \<and> new_Coder W idl = Inr (prog_coder P)
     \<and> build_namespace W idl (prog_coder P) pid (prog_provider P) = Inr N
     \<and> prog_rpc P = nsp_rpc N \<and> prog_instruction P = nsp_instruction N
     \<and> prog_transaction P = nsp_transaction N \<and> prog_account P = nsp_account N
     \<and> prog_simulate P = nsp_simulate N \<and> prog_type P = nsp_types N
     \<and> prog_idl P = idl \<and> prog_program_id P = pid"
proof (cases "case provider of Some p \<Rightarrow> Inr p | None \<Rightarrow> foreign (Provider_local W)")
  case (Inl e)
  with assms show ?thesis by (simp add: Program_init_def)
next
  case prov: (Inr p)
  then have p: "(case provider of Some p \<Rightarrow> Inr p | None \<Rightarrow> Provider_local W) = Inr p"
    by (auto simp: foreign_def split: option.splits sum.splits)
  show ?thesis
  proof (cases "new_Coder W idl")
    case (Inl x)
    with assms prov show ?thesis by (simp add: Program_init_def)
  next
    case coder: (Inr c)
    show ?thesis
    proof (cases "build_namespace W idl c pid p")
      case (Inl e)
      with assms prov coder show ?thesis by (simp add: Program_init_def)
    next
      case (Inr N)
      with assms prov coder have "P = \<lparr> prog_idl = idl,
           prog_program_id = pid,
           prog_provider = p,
           prog_coder = c,
           prog_rpc = nsp_rpc N,
           prog_instruction = nsp_instruction N,
           prog_transaction = nsp_transaction N,
           prog_account = nsp_account N,
           prog_simulate = nsp_simulate N,
           prog_type = nsp_types N \<rparr>"
        by (simp add: Program_init_def)
      with p coder Inr show ?thesis by simp
    qed
  qed
qed

lemma test_program_built:
  "\<exists>P. Program_init test_world test_idl test_program_id provider = Inr P"
proof -
  obtain p where p: "(case provider of Some p \<Rightarrow> Inr p
      | None \<Rightarrow> foreign (Provider_local test_world)) = Inr p"
    by (cases provider) (simp_all add: test_world_def)
  have c: "new_Coder test_world test_idl = Inr test_coder"
    by (simp add: test_world_def)
  have "\<exists>N. build_namespace test_world test_idl test_coder test_program_id p = Inr N"
    by (simp add: build_namespace_def build_account_def AccountClient_init_def Let_def
        test_world_def test_idl_def)
  then obtain N where "build_namespace test_world test_idl test_coder test_program_id p
      = Inr N" by blast
  then show ?thesis
    by (simp add: Program_init_def p c)
qed

text \<open>
  C5, as the spec states it, fails: \<^verbatim>\<open>Program.__init__\<close> declares
  \<^verbatim>\<open>provider: Optional[Provider] = None\<close> and, when the caller omits the argument,
  substitutes \<^verbatim>\<open>Provider.local()\<close>, as its docstring says. Here a program is constructed
  without a provider and ends up with the local one.
\<close>

theorem Program_init_default_provider_counterexample:
  "Provider_local test_world = Inr local_provider
   \<and> map_sum id prog_provider (Program_init test_world test_idl test_program_id None)
       = Inr local_provider"
proof -
  obtain P where P: "Program_init test_world test_idl test_program_id None = Inr P"
    using test_program_built by blast
  from Program_init_Inr [OF P] have "Provider_local test_world = Inr (prog_provider P)"
    by auto
  then have "prog_provider P = local_provider"
    by (simp add: test_world_def)
  then show ?thesis by (simp add: P) (simp add: test_world_def)
qed

text \<open>
  C5, amended. When the caller passes a provider, the constructed program uses exactly that
  provider; when the caller omits it, the program uses \<^verbatim>\<open>Provider.local()\<close>. Either way
  that one provider is the provider of every rpc handle, simulate handle and account client
  of the program.
\<close>

theorem Program_init_provider:
  assumes "Program_init W idl program_id provider = Inr P"
  shows "(\<forall>p. provider = Some p \<longrightarrow> prog_provider P = p)
     \<and> (provider = None \<longrightarrow> Provider_local W = Inr (prog_provider P))
     \<and> (\<forall>n r. map_of (prog_rpc P) n = Some r \<longrightarrow> rfn_provider r = prog_provider P)
     \<and> (\<forall>n s. map_of (prog_simulate P) n = Some s \<longrightarrow> sfn_provider s = prog_provider P)
     \<and> (\<forall>n c. map_of (prog_account P) n = Some c \<longrightarrow> ac_provider c = prog_provider P)"
proof -
  from Program_init_Inr [OF assms] obtain N where
    prov: "(case provider of Some p \<Rightarrow> Inr p | None \<Rightarrow> Provider_local W)
             = Inr (prog_provider P)"
    and N: "build_namespace W idl (prog_coder P) program_id (prog_provider P) = Inr N"
    and fields: "prog_rpc P = nsp_rpc N" "prog_simulate P = nsp_simulate N"
      "prog_account P = nsp_account N"
    by blast
  note B = build_namespace_Inr [OF N]
  let ?e = "\<lparr> ns_rpc = [], ns_instruction = [], ns_transaction = [], ns_simulate = [] \<rparr>
              :: ('a, 'b) IxNamespaces"
  have handles: "(\<forall>n r. map_of (prog_rpc P) n = Some r \<longrightarrow> rfn_provider r = prog_provider P)
     \<and> (\<forall>n s. map_of (prog_simulate P) n = Some s \<longrightarrow> sfn_provider s = prog_provider P)"
    using loop_providers [of ?e "prog_provider P" idl "prog_coder P" program_id
        "parse_idl_errors idl" 0 "Idl_instructions idl"]
    by (simp add: fields B)
  have accounts: "\<forall>n c. map_of (prog_account P) n = Some c
      \<longrightarrow> ac_provider c = prog_provider P"
  proof (cases "Idl_accounts idl = []")
    case True
    with B have "nsp_account N = []" by simp
    then show ?thesis by (simp add: fields)
  next
    case False
    with B have "build_account_loop W idl (prog_coder P) program_id (prog_provider P)
        (Idl_accounts idl) [] = Inr (nsp_account N)"
      by (simp add: build_account_def)
    from build_account_loop_provider [OF this] show ?thesis by (simp add: fields)
  qed
  show ?thesis
    using prov handles accounts by (auto split: option.splits)
qed

theorem Program_init_provider_witness:
  "(\<exists>P. Program_init test_world test_idl test_program_id (Some test_provider) = Inr P
        \<and> prog_provider P = test_provider
        \<and> (\<forall>n c. map_of (prog_account P) n = Some c \<longrightarrow> ac_provider c = test_provider))
   \<and> (\<exists>P. Program_init test_world test_idl test_program_id None = Inr P
        \<and> prog_provider P = local_provider)"
proof -
  obtain P where P: "Program_init test_world test_idl test_program_id (Some test_provider)
      = Inr P"
    using test_program_built by blast
  obtain Q where Q: "Program_init test_world test_idl test_program_id None = Inr Q"
    using test_program_built by blast
  from Program_init_provider [OF P]
  have one: "prog_provider P = test_provider
     \<and> (\<forall>n c. map_of (prog_account P) n = Some c \<longrightarrow> ac_provider c = test_provider)"
    by simp
  from Program_init_provider [OF Q]
  have "Provider_local test_world = Inr (prog_provider Q)" by simp
  then have two: "prog_provider Q = local_provider"
    by (simp add: test_world_def)
  from P Q one two show ?thesis by blast
qed

end
